theory Spec2Isabelle
  imports Complex_Main "HOL-Library.AList"
begin

section \<open>Data model of \<open>dag/state_generator.py\<close>\<close>

text \<open>
  The generator builds a graph of nodes with typed pins and serialises it to JSON.
  Python integers are unbounded (\<open>int\<close>); Python floats are modelled as \<open>real\<close>
  (only node positions and a few configuration values are floats, and they are never
  compared or rounded by the code below, only stored and echoed).
\<close>

definition BASE_ID :: int where
  "BASE_ID = 50000"

datatype PinType = EXECUTION | VECTOR2 | BOOLEAN | FLOAT

datatype NodeType =
    START | SEQUENCE | IF | PUSH_NODE | WAIT | ENEMY_LIST | PLAYER_POS | POINT
  | POINT_LIST | MOVE_TO | ENTER_PORTAL | MAP_CHANGE | OPERATOR | COMPARISON
  | SAVE_POS | USE_ITEM | SEND_MESSAGE | RECEIVE_MESSAGE | GROUP | HOTKEY
  | PLAYER_COUNT | STATUS_LEVEL | SWITCH_SERVER | CONNECT_TO_QUEST | NEXUS
  | RESET_TILE_CACHE | OFFSET_POS

fun NodeType_value :: "NodeType \<Rightarrow> string" where
  "NodeType_value START = ''Start''"
| "NodeType_value SEQUENCE = ''Sequence''"
| "NodeType_value IF = ''If''"
| "NodeType_value PUSH_NODE = ''PushNode''"
| "NodeType_value WAIT = ''Wait''"
| "NodeType_value ENEMY_LIST = ''EnemyList''"
| "NodeType_value PLAYER_POS = ''PlayerPos''"
| "NodeType_value POINT = ''Point''"
| "NodeType_value POINT_LIST = ''PointList''"
| "NodeType_value MOVE_TO = ''MoveTo''"
| "NodeType_value ENTER_PORTAL = ''EnterPortal''"
| "NodeType_value MAP_CHANGE = ''MapChange''"
| "NodeType_value OPERATOR = ''Operator''"
| "NodeType_value COMPARISON = ''Comparison''"
| "NodeType_value SAVE_POS = ''SavePos''"
| "NodeType_value USE_ITEM = ''UseItem''"
| "NodeType_value SEND_MESSAGE = ''SendMessageL''"
| "NodeType_value RECEIVE_MESSAGE = ''ReceivedMessage''"
| "NodeType_value GROUP = ''Group''"
| "NodeType_value HOTKEY = ''Hotkey''"
| "NodeType_value PLAYER_COUNT = ''PlayerCount''"
| "NodeType_value STATUS_LEVEL = ''StatusLevel''"
| "NodeType_value SWITCH_SERVER = ''SwitchServer''"
| "NodeType_value CONNECT_TO_QUEST = ''ConnectToQuest''"
| "NodeType_value NEXUS = ''Nexus''"
| "NodeType_value RESET_TILE_CACHE = ''ResetTileCache''"
| "NodeType_value OFFSET_POS = ''OffsetPos''"

text \<open>
  Values that end up in the JSON document. A Python \<open>dict\<close> is an association list in
  insertion order; \<open>AList.update\<close> is Python's \<open>d[k] = v\<close>: an existing key keeps its
  place and takes the new value, a new key goes to the end.
\<close>

datatype json =
    JNull
  | JBool bool
  | JInt int
  | JFloat real
  | JStr string
  | JList "json list"
  | JDict "(string \<times> json) list"

type_synonym pydict = "(string \<times> json) list"

fun dict_update :: "pydict \<Rightarrow> pydict \<Rightarrow> pydict" where
  "dict_update d [] = d"
| "dict_update d ((k, v) # rest) = dict_update (AList.update k v d) rest"

text \<open>
  Class \<open>Pin\<close>; the fields \<open>id\<close> and \<open>name\<close> are \<open>pin_id\<close> and \<open>pin_name\<close> here
  (\<open>id\<close> is the identity function of HOL).
\<close>

record Pin =
  pin_id :: int
  pin_name :: string
  pin_type :: PinType

definition Pin_to_dict :: "Pin \<Rightarrow> pydict" where
  "Pin_to_dict p = [(''id'', JInt (pin_id p)), (''name'', JStr (pin_name p))]"

record Node =
  node_type :: string
  position :: "real \<times> real"
  in_pins :: "Pin list"
  out_pins :: "Pin list"
  config :: pydict

definition Node_to_dict :: "Node \<Rightarrow> pydict" where
  "Node_to_dict n =
     (let result = [(''nodeType'', JStr (node_type n)),
                    (''position'', JDict [(''x'', JFloat (fst (position n))),
                                          (''y'', JFloat (snd (position n)))])];
          result = (if in_pins n \<noteq> []
                    then AList.update ''inPins'' (JList (map (\<lambda>p. JDict (Pin_to_dict p)) (in_pins n))) result
                    else result);
          result = (if out_pins n \<noteq> []
                    then AList.update ''outPins'' (JList (map (\<lambda>p. JDict (Pin_to_dict p)) (out_pins n))) result
                    else result)
      in dict_update result (config n))"

record Link =
  left_pin_id :: int
  right_pin_id :: int

definition Link_to_dict :: "Link \<Rightarrow> pydict" where
  "Link_to_dict l = [(''leftPinID'', JInt (left_pin_id l)), (''rightPinID'', JInt (right_pin_id l))]"

record StateGenerator =
  nodes :: "Node list"
  links :: "Link list"
  current_id :: int

text \<open>\<open>StateGenerator.__init__\<close>: the fresh graph.\<close>

definition StateGenerator_init :: StateGenerator where
  "StateGenerator_init = \<lparr>nodes = [], links = [], current_id = BASE_ID\<rparr>"

section \<open>The id allocator and the node factories\<close>

definition get_next_id :: "StateGenerator \<Rightarrow> int \<times> StateGenerator" where
  "get_next_id g = (current_id g + 1, g\<lparr>current_id := current_id g + 1\<rparr>)"

text \<open>\<open>_create_pin\<close>.\<close>

definition create_pin :: "string \<Rightarrow> PinType \<Rightarrow> StateGenerator \<Rightarrow> Pin \<times> StateGenerator" where
  "create_pin name ty g =
     (let (i, g') = get_next_id g
      in (\<lparr>pin_id = i, pin_name = name, pin_type = ty\<rparr>, g'))"

text \<open>
  A list display \<open>[self._create_pin(a), self._create_pin(b), ...]\<close> evaluates its
  elements from left to right, each call advancing the counter.
\<close>

fun create_pins :: "(string \<times> PinType) list \<Rightarrow> StateGenerator \<Rightarrow> Pin list \<times> StateGenerator" where
  "create_pins [] g = ([], g)"
| "create_pins ((name, ty) # rest) g =
     (let (p, g1) = create_pin name ty g;
          (ps, g2) = create_pins rest g1
      in (p # ps, g2))"

text \<open>
  Every factory has the same shape: \<open>node = Node(kind, position, in_pins=[...],
  out_pins=[...], config={...}); self.nodes.append(node); return node\<close>. In each of them
  the \<open>in_pins\<close> argument is written before \<open>out_pins\<close>, so the input pins are created
  first. \<open>make_node\<close> is that shape; the factories below supply the pin lists and the
  configuration of their kind.
\<close>

definition make_node ::
  "NodeType \<Rightarrow> real \<times> real \<Rightarrow> (string \<times> PinType) list \<Rightarrow> (string \<times> PinType) list \<Rightarrow> pydict
     \<Rightarrow> StateGenerator \<Rightarrow> Node \<times> StateGenerator" where
  "make_node kind pos ins outs cfg g =
     (let (ip, g1) = create_pins ins g;
          (op, g2) = create_pins outs g1;
          node = \<lparr>node_type = NodeType_value kind, position = pos,
                  in_pins = ip, out_pins = op, config = cfg\<rparr>
      in (node, g2\<lparr>nodes := nodes g2 @ [node]\<rparr>))"

text \<open>The decimal digits of a number, for the f-string \<open>f"In {i}"\<close> of \<open>create_sequence\<close>.\<close>

fun str_nat :: "nat \<Rightarrow> string" where
  "str_nat n = (if n < 10 then [''0123456789'' ! n]
                else str_nat (n div 10) @ [''0123456789'' ! (n mod 10)])"

definition create_start_node :: "string \<Rightarrow> real \<times> real \<Rightarrow> StateGenerator \<Rightarrow> Node \<times> StateGenerator" where
  "create_start_node name pos =
     make_node START pos [(''In'', EXECUTION)] [] [(''nodeName'', JStr name)]"

definition create_sequence :: "real \<times> real \<Rightarrow> StateGenerator \<Rightarrow> Node \<times> StateGenerator" where
  "create_sequence pos =
     make_node SEQUENCE pos
       ([(''In'', EXECUTION)] @ map (\<lambda>i. (''In '' @ str_nat i, EXECUTION)) [2..<6])
       [(''Out'', EXECUTION)] []"

definition create_if_node :: "real \<times> real \<Rightarrow> StateGenerator \<Rightarrow> Node \<times> StateGenerator" where
  "create_if_node pos =
     make_node IF pos
       [(''True'', EXECUTION), (''False'', EXECUTION), (''Condition'', BOOLEAN)]
       [(''Out'', EXECUTION)] []"

definition create_push_node :: "string \<Rightarrow> real \<times> real \<Rightarrow> StateGenerator \<Rightarrow> Node \<times> StateGenerator" where
  "create_push_node target_state pos =
     make_node PUSH_NODE pos [] [(''Out'', EXECUTION)] [(''name'', JStr target_state)]"

definition create_wait :: "int \<Rightarrow> real \<times> real \<Rightarrow> StateGenerator \<Rightarrow> Node \<times> StateGenerator" where
  "create_wait wait_time pos =
     make_node WAIT pos [(''In'', EXECUTION)] [(''Out'', EXECUTION)] [(''waitTime'', JInt wait_time)]"

definition create_enemy_list ::
  "int list \<Rightarrow> real \<times> real \<Rightarrow> int \<Rightarrow> int \<Rightarrow> bool \<Rightarrow> StateGenerator \<Rightarrow> Node \<times> StateGenerator" where
  "create_enemy_list enemy_ids pos object_type sort_type ignore_invul =
     make_node ENEMY_LIST pos []
       [(''Pos'', VECTOR2), (''Exists'', BOOLEAN), (''ID'', FLOAT)]
       [(''enemyList'', JList (map JInt enemy_ids)), (''objectType'', JInt object_type),
        (''sortType'', JInt sort_type), (''ignoreInvul'', JBool ignore_invul)]"

definition create_player_pos :: "real \<times> real \<Rightarrow> StateGenerator \<Rightarrow> Node \<times> StateGenerator" where
  "create_player_pos pos = make_node PLAYER_POS pos [] [(''Pos'', VECTOR2)] []"

definition create_point :: "real \<Rightarrow> real \<Rightarrow> real \<times> real \<Rightarrow> StateGenerator \<Rightarrow> Node \<times> StateGenerator" where
  "create_point x y pos =
     make_node POINT pos [] [(''Pos'', VECTOR2)]
       [(''point'', JDict [(''x'', JFloat x), (''y'', JFloat y)])]"

definition create_point_list ::
  "(real \<times> real) list \<Rightarrow> real \<times> real \<Rightarrow> bool \<Rightarrow> real \<Rightarrow> StateGenerator \<Rightarrow> Node \<times> StateGenerator" where
  "create_point_list points pos randomize switch_distance =
     (let point_dicts = map (\<lambda>(x, y). JDict [(''x'', JFloat x), (''y'', JFloat y)]) points
      in make_node POINT_LIST pos [] [(''Pos'', VECTOR2)]
           [(''pointList'', JList point_dicts), (''randomize'', JBool randomize),
            (''switchDistance'', JFloat switch_distance)])"

definition create_move_to :: "real \<times> real \<Rightarrow> bool \<Rightarrow> bool \<Rightarrow> StateGenerator \<Rightarrow> Node \<times> StateGenerator" where
  "create_move_to pos teleport teleport_once =
     make_node MOVE_TO pos
       [(''In'', EXECUTION), (''Position'', VECTOR2)]
       [(''Out'', EXECUTION)]
       [(''teleport'', JBool teleport), (''teleportOnce'', JBool teleport_once)]"

definition create_enter_portal :: "real \<times> real \<Rightarrow> StateGenerator \<Rightarrow> Node \<times> StateGenerator" where
  "create_enter_portal pos =
     make_node ENTER_PORTAL pos [(''In'', EXECUTION), (''Portal ID'', FLOAT)] [(''Out'', EXECUTION)] []"

definition create_map_change :: "string \<Rightarrow> real \<times> real \<Rightarrow> StateGenerator \<Rightarrow> Node \<times> StateGenerator" where
  "create_map_change map_name pos =
     make_node MAP_CHANGE pos [(''In'', EXECUTION)] [] [(''mapName'', JStr map_name)]"

definition create_operator :: "real \<times> real \<Rightarrow> int \<Rightarrow> real \<Rightarrow> StateGenerator \<Rightarrow> Node \<times> StateGenerator" where
  "create_operator pos operator_type towards_distance =
     make_node OPERATOR pos
       [(''A'', VECTOR2), (''B'', VECTOR2), (''Val'', FLOAT)]
       [(''Result'', VECTOR2), (''Distance'', FLOAT)]
       [(''operatorType'', JInt operator_type), (''towardsDistance'', JFloat towards_distance)]"

definition create_comparison :: "real \<times> real \<Rightarrow> int \<Rightarrow> real \<Rightarrow> StateGenerator \<Rightarrow> Node \<times> StateGenerator" where
  "create_comparison pos comparison_type val_to_compare =
     make_node COMPARISON pos [(''A'', FLOAT)] [(''Result'', BOOLEAN)]
       [(''comparisonType'', JInt comparison_type), (''valToCompare'', JFloat val_to_compare)]"

definition create_save_pos :: "real \<times> real \<Rightarrow> bool \<Rightarrow> StateGenerator \<Rightarrow> Node \<times> StateGenerator" where
  "create_save_pos pos persistent =
     make_node SAVE_POS pos
       [(''In'', EXECUTION), (''Pos'', VECTOR2)]
       [(''Out'', EXECUTION), (''Saved Pos'', VECTOR2), (''Has Value'', BOOLEAN)]
       [(''persistentPos'', JBool persistent)]"

definition create_use_item :: "int \<Rightarrow> real \<times> real \<Rightarrow> StateGenerator \<Rightarrow> Node \<times> StateGenerator" where
  "create_use_item item_id pos =
     make_node USE_ITEM pos [(''In'', EXECUTION)] [(''Out'', EXECUTION), (''Has'', BOOLEAN)]
       [(''itemId'', JInt item_id)]"

definition create_send_message :: "string \<Rightarrow> real \<times> real \<Rightarrow> int \<Rightarrow> StateGenerator \<Rightarrow> Node \<times> StateGenerator" where
  "create_send_message message pos delay_ms =
     make_node SEND_MESSAGE pos [(''In'', EXECUTION)] [(''Out'', EXECUTION)]
       [(''message'', JStr message), (''delayMs'', JInt delay_ms), (''sendWithDelay'', JBool (delay_ms > 0))]"

definition create_received_message ::
  "string \<Rightarrow> string \<Rightarrow> real \<times> real \<Rightarrow> StateGenerator \<Rightarrow> Node \<times> StateGenerator" where
  "create_received_message from_player content pos =
     make_node RECEIVE_MESSAGE pos [(''In'', EXECUTION)] [(''Out'', EXECUTION)]
       [(''from'', JStr from_player), (''content'', JStr content)]"

definition create_group :: "real \<times> real \<Rightarrow> real \<Rightarrow> real \<Rightarrow> StateGenerator \<Rightarrow> Node \<times> StateGenerator" where
  "create_group pos epsilon max_dist =
     make_node GROUP pos [] [(''Center'', VECTOR2)]
       [(''epsilon'', JFloat epsilon), (''maxDistanceFromPlayer'', JFloat max_dist)]"

definition create_hotkey :: "real \<times> real \<Rightarrow> StateGenerator \<Rightarrow> Node \<times> StateGenerator" where
  "create_hotkey pos =
     make_node HOTKEY pos
       [(''None'', EXECUTION), (''Pressed'', EXECUTION), (''Held'', EXECUTION)]
       [(''Out'', EXECUTION)]
       [(''hotkeyName'', JStr ''''),
        (''nodehotkey'', JDict [(''isAlt'', JBool False), (''isCtrl'', JBool False),
                                (''isShift'', JBool False), (''key'', JInt 0)])]"

definition create_player_count :: "real \<times> real \<Rightarrow> bool \<Rightarrow> StateGenerator \<Rightarrow> Node \<times> StateGenerator" where
  "create_player_count pos exclude_wl =
     make_node PLAYER_COUNT pos [] [(''Count'', FLOAT)] [(''excludeWLPlayers'', JBool exclude_wl)]"

definition create_status_level :: "real \<times> real \<Rightarrow> int \<Rightarrow> StateGenerator \<Rightarrow> Node \<times> StateGenerator" where
  "create_status_level pos status_type =
     make_node STATUS_LEVEL pos [] [(''Level'', FLOAT)] [(''statusType'', JInt status_type)]"

definition create_switch_server :: "real \<times> real \<Rightarrow> StateGenerator \<Rightarrow> Node \<times> StateGenerator" where
  "create_switch_server pos = make_node SWITCH_SERVER pos [] [(''Out'', EXECUTION)] []"

definition create_connect_to_quest :: "real \<times> real \<Rightarrow> int \<Rightarrow> StateGenerator \<Rightarrow> Node \<times> StateGenerator" where
  "create_connect_to_quest pos max_pop =
     make_node CONNECT_TO_QUEST pos [] [(''Out'', EXECUTION)]
       [(''selectedQuestType'', JList []), (''maxRealmPopCount'', JInt max_pop),
        (''minRealmPopCount'', JInt 0)]"

definition create_nexus :: "real \<times> real \<Rightarrow> StateGenerator \<Rightarrow> Node \<times> StateGenerator" where
  "create_nexus pos = make_node NEXUS pos [] [(''Out'', EXECUTION)] []"

definition create_reset_tile_cache :: "real \<times> real \<Rightarrow> StateGenerator \<Rightarrow> Node \<times> StateGenerator" where
  "create_reset_tile_cache pos = make_node RESET_TILE_CACHE pos [] [(''Out'', EXECUTION)] []"

definition create_offset_pos :: "real \<times> real \<Rightarrow> real \<Rightarrow> StateGenerator \<Rightarrow> Node \<times> StateGenerator" where
  "create_offset_pos pos dist_arg =
     make_node OFFSET_POS pos [(''Pos'', VECTOR2)] [(''Result'', VECTOR2)]
       [(''offsetDist'', JFloat dist_arg)]"

section \<open>The link operation\<close>

text \<open>
  \<open>link_pins\<close> raises \<open>ValueError\<close> at four places; the constructors name them in the
  order of the source: pin not found, type mismatch, both pins from the same array, and
  duplicate link. The state is returned with the outcome, as it is at the moment of the
  raise or of the return.
\<close>

datatype link_error = PinNotFound | TypeMismatch | InvalidLinkShape | DuplicateLink

text \<open>The loop \<open>for pin in pins: if pin.name == name: ...; break\<close>.\<close>

definition find_pin :: "string \<Rightarrow> Pin list \<Rightarrow> Pin option" where
  "find_pin name ps = List.find (\<lambda>pin. pin_name pin = name) ps"

text \<open>
  The two search blocks of \<open>link_pins\<close>, each giving the pin and the flag
  \<open>source_is_out\<close> / \<open>target_is_out\<close>: the source side looks in \<open>out_pins\<close> and then in
  \<open>in_pins\<close>, the target side in \<open>in_pins\<close> and then in \<open>out_pins\<close>.
\<close>

definition resolve_source :: "Node \<Rightarrow> string \<Rightarrow> (Pin \<times> bool) option" where
  "resolve_source source_node source_pin_name =
     (case find_pin source_pin_name (out_pins source_node) of
        Some pin \<Rightarrow> Some (pin, True)
      | None \<Rightarrow>
          (case find_pin source_pin_name (in_pins source_node) of
             Some pin \<Rightarrow> Some (pin, False)
           | None \<Rightarrow> None))"

definition resolve_target :: "Node \<Rightarrow> string \<Rightarrow> (Pin \<times> bool) option" where
  "resolve_target target_node target_pin_name =
     (case find_pin target_pin_name (in_pins target_node) of
        Some pin \<Rightarrow> Some (pin, False)
      | None \<Rightarrow>
          (case find_pin target_pin_name (out_pins target_node) of
             Some pin \<Rightarrow> Some (pin, True)
           | None \<Rightarrow> None))"

text \<open>The duplicate check and the append that end \<open>link_pins\<close>.\<close>

definition record_link :: "Pin \<Rightarrow> Pin \<Rightarrow> StateGenerator \<Rightarrow> (link_error + unit) \<times> StateGenerator" where
  "record_link left_pin right_pin g =
     (if list_ex (\<lambda>l. left_pin_id l = pin_id left_pin \<and> right_pin_id l = pin_id right_pin) (links g)
      then (Inl DuplicateLink, g)
      else (Inr (), g\<lparr>links := links g @ [\<lparr>left_pin_id = pin_id left_pin,
                                            right_pin_id = pin_id right_pin\<rparr>]\<rparr>))"

definition link_pins ::
  "Node \<Rightarrow> string \<Rightarrow> Node \<Rightarrow> string \<Rightarrow> StateGenerator \<Rightarrow> (link_error + unit) \<times> StateGenerator" where
  "link_pins source_node source_pin_name target_node target_pin_name g =
     (case (resolve_source source_node source_pin_name,
            resolve_target target_node target_pin_name) of
        (Some (source_pin, source_is_out), Some (target_pin, target_is_out)) \<Rightarrow>
          if pin_type source_pin \<noteq> pin_type target_pin then (Inl TypeMismatch, g)
          else if source_is_out \<and> \<not> target_is_out then record_link source_pin target_pin g
          else if \<not> source_is_out \<and> target_is_out then record_link target_pin source_pin g
          else (Inl InvalidLinkShape, g)
      | _ \<Rightarrow> (Inl PinNotFound, g))"

section \<open>The serialiser\<close>

text \<open>
  \<open>generate\<close> builds the dictionary \<open>result\<close> and hands it to \<open>json.dumps(result,
  indent=4)\<close> of the Python standard library. \<open>generate_result\<close> is that dictionary;
  the library's encoder is the parameter \<open>json_dumps\<close> (a function of the value and
  the indent). \<open>generate\<close> reads the graph and returns the text; it assigns nothing.
\<close>

definition generate_result :: "StateGenerator \<Rightarrow> pydict" where
  "generate_result g =
     [(''links'', JList (map (\<lambda>link. JDict (Link_to_dict link)) (links g))),
      (''nodes'', JList (map (\<lambda>node. JDict (Node_to_dict node)) (nodes g))),
      (''version'', JStr ''1.0'')]"

definition generate :: "(json \<Rightarrow> nat \<Rightarrow> string) \<Rightarrow> StateGenerator \<Rightarrow> string" where
  "generate json_dumps g = json_dumps (JDict (generate_result g)) 4"

section \<open>Patterns of \<open>workflow_builder.py\<close>\<close>

text \<open>
  A \<open>WorkflowBuilder\<close> holds one \<open>StateGenerator\<close> (\<open>self.gen\<close>), so its methods are
  functions of that generator. \<open>PatternNodes\<close> wraps a dictionary from role names to
  nodes. An exception raised by a link leaves the pattern at once: the remaining
  statements do not run.
\<close>

definition H_SPACE :: real where
  "H_SPACE = 200"

definition DEPTH_SPACE :: real where
  "DEPTH_SPACE = 200"

definition DATA_OFFSET :: real where
  "DATA_OFFSET = - 150"

type_synonym PatternNodes = "(string \<times> Node) list"

definition link_exec ::
  "Node \<Rightarrow> string \<Rightarrow> Node \<Rightarrow> string \<Rightarrow> StateGenerator \<Rightarrow> (link_error + unit) \<times> StateGenerator" where
  "link_exec from_node from_pin to_node to_pin g = link_pins from_node from_pin to_node to_pin g"

definition link_data ::
  "Node \<Rightarrow> string \<Rightarrow> Node \<Rightarrow> string \<Rightarrow> StateGenerator \<Rightarrow> (link_error + unit) \<times> StateGenerator" where
  "link_data from_node from_pin to_node to_pin g = link_pins from_node from_pin to_node to_pin g"

text \<open>
  A run of link statements one after the other: the first one that raises ends the run
  with its error and the state at that moment. \<open>link_data\<close> and \<open>link_exec\<close> both hand
  their four arguments to \<open>link_pins\<close> unchanged, so a run of either is a run of
  \<open>link_pins\<close>.
\<close>

fun link_seq ::
  "(Node \<times> string \<times> Node \<times> string) list \<Rightarrow> StateGenerator \<Rightarrow> (link_error + unit) \<times> StateGenerator" where
  "link_seq [] g = (Inr (), g)"
| "link_seq ((a, pa, b, pb) # rest) g =
     (case link_pins a pa b pb g of
        (Inl e, g') \<Rightarrow> (Inl e, g')
      | (Inr u, g') \<Rightarrow> link_seq rest g')"

text \<open>
  Python's \<open>s.replace(old, new)\<close>: the occurrences of \<open>old\<close> are replaced from left to
  right without overlap; for an empty \<open>old\<close>, \<open>new\<close> is put before every character and
  at the end.
\<close>

function str_replace :: "string \<Rightarrow> string \<Rightarrow> string \<Rightarrow> string" where
  "str_replace old new s =
     (if old = [] then new @ concat (map (\<lambda>c. c # new) s)
      else if s = [] then []
      else if take (length old) s = old then new @ str_replace old new (drop (length old) s)
      else hd s # str_replace old new (tl s))"
  by pat_completeness auto
termination
  by (relation "measure (\<lambda>(old, new, s). length s)") auto

declare str_replace.simps [simp del]

definition create_move_to_target ::
  "real \<times> real \<Rightarrow> bool \<Rightarrow> real option \<Rightarrow> StateGenerator
     \<Rightarrow> (link_error + PatternNodes) \<times> StateGenerator" where
  "create_move_to_target pos teleport offset_dist g =
     (let (x, y) = pos;
          result = []
      in case offset_dist of
           Some d \<Rightarrow>
             (let (offset, g) = create_offset_pos (x, y) d g;
                  result = AList.update ''offset'' offset result;
                  (move, g) = create_move_to (x - H_SPACE, y) teleport False g;
                  result = AList.update ''move'' move result
              in case link_data offset ''Result'' move ''Position'' g of
                   (Inl e, g) \<Rightarrow> (Inl e, g)
                 | (Inr u, g) \<Rightarrow> (Inr result, g))
         | None \<Rightarrow>
             (let (move, g) = create_move_to (x, y) teleport False g;
                  result = AList.update ''move'' move result
              in (Inr result, g)))"

definition create_beacon_search ::
  "int \<Rightarrow> real \<times> real \<Rightarrow> string \<Rightarrow> real \<times> real \<Rightarrow> real \<Rightarrow> StateGenerator
     \<Rightarrow> (link_error + PatternNodes) \<times> StateGenerator" where
  "create_beacon_search beacon_enemy_id beacon_position next_state pos distance_threshold g =
     (let (x, y) = pos;
          result = [];
          (start, g) = create_start_node (str_replace ''_clear'' ''_beacon'' next_state) (x, y) g;
          result = AList.update ''start'' start result;
          (sequence, g) = create_sequence (x - H_SPACE, y) g;
          result = AList.update ''sequence'' sequence result;
          (distance_check, g) = create_if_node (x - 2 * H_SPACE, y) g;
          result = AList.update ''distance_check'' distance_check result;
          (teleport_move, g) = create_move_to (x - 3 * H_SPACE, y) True False g;
          result = AList.update ''teleport_move'' teleport_move result;
          data_y = y + DATA_OFFSET;
          (player_pos, g) = create_player_pos (x - H_SPACE, data_y) g;
          result = AList.update ''player_pos'' player_pos result;
          (beacon_point, g) = create_point_list [beacon_position] (x - 2 * H_SPACE, data_y) False 1 g;
          result = AList.update ''beacon_point'' beacon_point result;
          (operator, g) = create_operator (x - 3 * H_SPACE, data_y) 0 0 g;
          result = AList.update ''operator'' operator result;
          (comparison, g) = create_comparison (x - 4 * H_SPACE, data_y) 2 distance_threshold g;
          result = AList.update ''comparison'' comparison result;
          depth1_y = y + DEPTH_SPACE;
          (enemy_check, g) = create_if_node (x - 2 * H_SPACE, depth1_y) g;
          result = AList.update ''enemy_check'' enemy_check result;
          (enemy_move, g) = create_move_to (x - 3 * H_SPACE, depth1_y) False False g;
          result = AList.update ''enemy_move'' enemy_move result;
          (push_next, g) = create_push_node next_state (x - 3 * H_SPACE, depth1_y + DEPTH_SPACE) g;
          result = AList.update ''push_next'' push_next result;
          enemy_data_y = y + DEPTH_SPACE / 2;
          (enemy_finder, g) = create_enemy_list [beacon_enemy_id] (x - 3 * H_SPACE, enemy_data_y) 0 0 False g;
          result = AList.update ''enemy_finder'' enemy_finder result;
          (enemy_offset, g) = create_offset_pos (x - 4 * H_SPACE, enemy_data_y + 50) 2.5 g;
          result = AList.update ''enemy_offset'' enemy_offset result
      in case link_seq
                [(player_pos, ''Pos'', operator, ''A''),
                 (beacon_point, ''Pos'', operator, ''B''),
                 (operator, ''Distance'', comparison, ''A''),
                 (comparison, ''Result'', distance_check, ''Condition''),
                 (beacon_point, ''Pos'', teleport_move, ''Position''),
                 (enemy_finder, ''Exists'', enemy_check, ''Condition''),
                 (enemy_finder, ''Pos'', enemy_offset, ''Pos''),
                 (enemy_offset, ''Result'', enemy_move, ''Position''),
                 (start, ''In'', sequence, ''Out''),
                 (sequence, ''In'', distance_check, ''Out''),
                 (distance_check, ''False'', teleport_move, ''Out''),
                 (distance_check, ''True'', enemy_check, ''Out''),
                 (enemy_check, ''True'', enemy_move, ''Out''),
                 (enemy_check, ''False'', push_next, ''Out'')] g of
           (Inl e, g) \<Rightarrow> (Inl e, g)
         | (Inr u, g) \<Rightarrow> (Inr result, g))"

section \<open>Sequences of factory calls\<close>

text \<open>One constructor for each factory of \<open>StateGenerator\<close>, with the factory's arguments.\<close>

datatype factory_call =
    Start_node string "real \<times> real"
  | Sequence "real \<times> real"
  | If_node "real \<times> real"
  | Push_node string "real \<times> real"
  | Wait int "real \<times> real"
  | Enemy_list "int list" "real \<times> real" int int bool
  | Player_pos "real \<times> real"
  | Point real real "real \<times> real"
  | Point_list "(real \<times> real) list" "real \<times> real" bool real
  | Move_to "real \<times> real" bool bool
  | Enter_portal "real \<times> real"
  | Map_change string "real \<times> real"
  | Operator "real \<times> real" int real
  | Comparison "real \<times> real" int real
  | Save_pos "real \<times> real" bool
  | Use_item int "real \<times> real"
  | Send_message string "real \<times> real" int
  | Received_message string string "real \<times> real"
  | Group "real \<times> real" real real
  | Hotkey "real \<times> real"
  | Player_count "real \<times> real" bool
  | Status_level "real \<times> real" int
  | Switch_server "real \<times> real"
  | Connect_to_quest "real \<times> real" int
  | Nexus "real \<times> real"
  | Reset_tile_cache "real \<times> real"
  | Offset_pos "real \<times> real" real

fun call_factory :: "factory_call \<Rightarrow> StateGenerator \<Rightarrow> Node \<times> StateGenerator" where
  "call_factory (Start_node name pos) = create_start_node name pos"
| "call_factory (Sequence pos) = create_sequence pos"
| "call_factory (If_node pos) = create_if_node pos"
| "call_factory (Push_node target_state pos) = create_push_node target_state pos"
| "call_factory (Wait wait_time pos) = create_wait wait_time pos"
| "call_factory (Enemy_list enemy_ids pos object_type sort_type ignore_invul) =
     create_enemy_list enemy_ids pos object_type sort_type ignore_invul"
| "call_factory (Player_pos pos) = create_player_pos pos"
| "call_factory (Point x y pos) = create_point x y pos"
| "call_factory (Point_list points pos randomize switch_distance) =
     create_point_list points pos randomize switch_distance"
| "call_factory (Move_to pos teleport teleport_once) = create_move_to pos teleport teleport_once"
| "call_factory (Enter_portal pos) = create_enter_portal pos"
| "call_factory (Map_change map_name pos) = create_map_change map_name pos"
| "call_factory (Operator pos operator_type towards_distance) =
     create_operator pos operator_type towards_distance"
| "call_factory (Comparison pos comparison_type val_to_compare) =
     create_comparison pos comparison_type val_to_compare"
| "call_factory (Save_pos pos persistent) = create_save_pos pos persistent"
| "call_factory (Use_item item_id pos) = create_use_item item_id pos"
| "call_factory (Send_message message pos delay_ms) = create_send_message message pos delay_ms"
| "call_factory (Received_message from_player content pos) =
     create_received_message from_player content pos"
| "call_factory (Group pos epsilon max_dist) = create_group pos epsilon max_dist"
| "call_factory (Hotkey pos) = create_hotkey pos"
| "call_factory (Player_count pos exclude_wl) = create_player_count pos exclude_wl"
| "call_factory (Status_level pos status_type) = create_status_level pos status_type"
| "call_factory (Switch_server pos) = create_switch_server pos"
| "call_factory (Connect_to_quest pos max_pop) = create_connect_to_quest pos max_pop"
| "call_factory (Nexus pos) = create_nexus pos"
| "call_factory (Reset_tile_cache pos) = create_reset_tile_cache pos"
| "call_factory (Offset_pos pos d) = create_offset_pos pos d"

fun call_factories :: "factory_call list \<Rightarrow> StateGenerator \<Rightarrow> StateGenerator" where
  "call_factories [] g = g"
| "call_factories (c # cs) g = call_factories cs (snd (call_factory c g))"

text \<open>
  The pin ids of a graph in the order of their creation: nodes are appended in the
  order of the factory calls, and a factory creates the input pins of its node before
  the output pins.
\<close>

definition node_pin_ids :: "Node \<Rightarrow> int list" where
  "node_pin_ids n = map pin_id (in_pins n) @ map pin_id (out_pins n)"

definition issued_ids :: "StateGenerator \<Rightarrow> int list" where
  "issued_ids g = concat (map node_pin_ids (nodes g))"

text \<open>
  The invariant of the allocator: the counter never falls below the base, and the pins
  of the graph carry exactly the ids the counter has handed out, in that order.
\<close>

definition ids_inv :: "StateGenerator \<Rightarrow> bool" where
  "ids_inv g \<longleftrightarrow> BASE_ID \<le> current_id g \<and> issued_ids g = [BASE_ID + 1 .. current_id g]"

section \<open>Graph structure: owners of pins, edges, cycles\<close>

text \<open>
  A link goes from the node that owns its left pin to the node that owns its right pin;
  nodes are named by their index in the node sequence.
\<close>

definition node_of_pin :: "StateGenerator \<Rightarrow> int \<Rightarrow> nat option" where
  "node_of_pin g i =
     List.find (\<lambda>k. i \<in> set (node_pin_ids (nodes g ! k))) [0..<length (nodes g)]"

definition link_edges :: "StateGenerator \<Rightarrow> (nat \<times> nat) list" where
  "link_edges g =
     concat (map (\<lambda>l. case (node_of_pin g (left_pin_id l), node_of_pin g (right_pin_id l)) of
                          (Some a, Some b) \<Rightarrow> [(a, b)]
                        | _ \<Rightarrow> [])
                 (links g))"

definition reaches :: "StateGenerator \<Rightarrow> nat \<Rightarrow> nat \<Rightarrow> bool" where
  "reaches g a b = ((a, b) \<in> (set (link_edges g))\<^sup>*)"

definition has_cycle :: "StateGenerator \<Rightarrow> bool" where
  "has_cycle g = (\<exists>(a, b) \<in> set (link_edges g). reaches g b a)"

text \<open>
  The beacon-search subgraph on a fresh generator, as the proofs below establish it:
  its links, the pin ids of its thirteen nodes in creation order, its edges between
  node indices, and a rank of the nodes that every edge increases.
\<close>

definition beacon_links :: "Link list" where
  "beacon_links =
     [\<lparr>left_pin_id = 50015, right_pin_id = 50017\<rparr>,
      \<lparr>left_pin_id = 50016, right_pin_id = 50018\<rparr>,
      \<lparr>left_pin_id = 50021, right_pin_id = 50022\<rparr>,
      \<lparr>left_pin_id = 50023, right_pin_id = 50010\<rparr>,
      \<lparr>left_pin_id = 50016, right_pin_id = 50013\<rparr>,
      \<lparr>left_pin_id = 50033, right_pin_id = 50026\<rparr>,
      \<lparr>left_pin_id = 50032, right_pin_id = 50035\<rparr>,
      \<lparr>left_pin_id = 50036, right_pin_id = 50029\<rparr>,
      \<lparr>left_pin_id = 50007, right_pin_id = 50001\<rparr>,
      \<lparr>left_pin_id = 50011, right_pin_id = 50002\<rparr>,
      \<lparr>left_pin_id = 50014, right_pin_id = 50009\<rparr>,
      \<lparr>left_pin_id = 50027, right_pin_id = 50008\<rparr>,
      \<lparr>left_pin_id = 50030, right_pin_id = 50024\<rparr>,
      \<lparr>left_pin_id = 50031, right_pin_id = 50025\<rparr>]"

definition beacon_pin_ids :: "int list list" where
  "beacon_pin_ids =
     [[50001],
      [50002, 50003, 50004, 50005, 50006, 50007],
      [50008, 50009, 50010, 50011],
      [50012, 50013, 50014],
      [50015],
      [50016],
      [50017, 50018, 50019, 50020, 50021],
      [50022, 50023],
      [50024, 50025, 50026, 50027],
      [50028, 50029, 50030],
      [50031],
      [50032, 50033, 50034],
      [50035, 50036]]"

definition beacon_edges :: "(nat \<times> nat) list" where
  "beacon_edges =
     [(4, 6), (5, 6), (6, 7), (7, 2), (5, 3), (11, 8), (11, 12), (12, 9), (1, 0), (2, 1), (3, 2), (8, 2), (9, 8), (10, 8)]"

definition beacon_rank :: "nat \<Rightarrow> nat" where
  "beacon_rank k = [6, 5, 4, 1, 0, 0, 1, 2, 3, 2, 0, 0, 1] ! k"

section \<open>Nodes used in the examples\<close>

text \<open>A node that carries the pin name \<open>X\<close> in both of its arrays.\<close>

definition twin_node :: Node where
  "twin_node = \<lparr>node_type = ''If'', position = (0, 0),
                 in_pins = [\<lparr>pin_id = 2, pin_name = ''X'', pin_type = EXECUTION\<rparr>],
                 out_pins = [\<lparr>pin_id = 3, pin_name = ''X'', pin_type = EXECUTION\<rparr>],
                 config = []\<rparr>"

text \<open>A node whose configuration binds the reserved keys \<open>nodeType\<close> and \<open>position\<close>.\<close>

definition clash_node :: Node where
  "clash_node = \<lparr>node_type = ''Wait'', position = (1, 2),
                  in_pins = [], out_pins = [],
                  config = [(''position'', JStr ''here''), (''nodeType'', JInt 7)]\<rparr>"

text \<open>
  A graph of two nodes made by the factories, a position source and a movement node,
  and the same graph after its data link has been recorded.
\<close>

definition demo_graph :: StateGenerator where
  "demo_graph = snd (create_move_to (0, 0) False False (snd (create_player_pos (0, 0) StateGenerator_init)))"

definition demo_source :: Node where
  "demo_source = fst (create_player_pos (0, 0) StateGenerator_init)"

definition demo_target :: Node where
  "demo_target = fst (create_move_to (0, 0) False False (snd (create_player_pos (0, 0) StateGenerator_init)))"

definition demo_linked :: StateGenerator where
  "demo_linked = snd (link_pins demo_source ''Pos'' demo_target ''Position'' demo_graph)"

section \<open>Evaluation of the examples\<close>

lemmas factory_defs =
  create_start_node_def create_sequence_def create_if_node_def create_push_node_def
  create_wait_def create_enemy_list_def create_player_pos_def create_point_def
  create_point_list_def create_move_to_def create_enter_portal_def create_map_change_def
  create_operator_def create_comparison_def create_save_pos_def create_use_item_def
  create_send_message_def create_received_message_def create_group_def create_hotkey_def
  create_player_count_def create_status_level_def create_switch_server_def
  create_connect_to_quest_def create_nexus_def create_reset_tile_cache_def
  create_offset_pos_def

lemmas alloc_defs = Let_def make_node_def create_pin_def get_next_id_def StateGenerator_init_def BASE_ID_def

lemmas link_defs = link_pins_def resolve_source_def resolve_target_def find_pin_def record_link_def

lemma demo_source_eq:
  "demo_source = \<lparr>node_type = ''PlayerPos'', position = (0, 0), in_pins = [],
      out_pins = [\<lparr>pin_id = 50001, pin_name = ''Pos'', pin_type = VECTOR2\<rparr>], config = []\<rparr>"
  by (simp add: demo_source_def factory_defs alloc_defs)

lemma demo_target_eq:
  "demo_target = \<lparr>node_type = ''MoveTo'', position = (0, 0),
      in_pins = [\<lparr>pin_id = 50002, pin_name = ''In'', pin_type = EXECUTION\<rparr>,
                 \<lparr>pin_id = 50003, pin_name = ''Position'', pin_type = VECTOR2\<rparr>],
      out_pins = [\<lparr>pin_id = 50004, pin_name = ''Out'', pin_type = EXECUTION\<rparr>],
      config = [(''teleport'', JBool False), (''teleportOnce'', JBool False)]\<rparr>"
  by (simp add: demo_target_def factory_defs alloc_defs)

lemma demo_graph_eq:
  "demo_graph = \<lparr>nodes = [demo_source, demo_target], links = [], current_id = 50004\<rparr>"
  by (simp add: demo_graph_def demo_source_def demo_target_def factory_defs alloc_defs)

lemma demo_linked_eq:
  "demo_linked = \<lparr>nodes = [demo_source, demo_target],
                   links = [\<lparr>left_pin_id = 50001, right_pin_id = 50003\<rparr>], current_id = 50004\<rparr>"
  by (simp add: demo_linked_def demo_graph_eq link_defs demo_source_eq demo_target_eq)

lemma demo_link_ok:
  "link_pins demo_source ''Pos'' demo_target ''Position'' demo_graph = (Inr (), demo_linked)"
  by (simp add: demo_linked_eq demo_graph_eq link_defs demo_source_eq demo_target_eq)

section \<open>Properties of the link operation\<close>

lemma record_link_failed: "fst (record_link p q g) = Inl e \<Longrightarrow> snd (record_link p q g) = g"
  by (simp add: record_link_def split: if_splits)

lemma link_pins_failed:
  "fst (link_pins s sn t tn g) = Inl e \<Longrightarrow> snd (link_pins s sn t tn g) = g"
  by (auto simp: link_pins_def record_link_failed split: option.splits prod.splits if_splits)

lemma record_link_ok:
  "record_link p q g = (Inr (), g') \<Longrightarrow>
     g' = g\<lparr>links := links g @ [\<lparr>left_pin_id = pin_id p, right_pin_id = pin_id q\<rparr>]\<rparr>"
  by (simp add: record_link_def split: if_splits)

lemma record_link_dup:
  "\<lparr>left_pin_id = pin_id p, right_pin_id = pin_id q\<rparr> \<in> set (links (h::StateGenerator)) \<Longrightarrow>
     record_link p q h = (Inl DuplicateLink, h)"
  by (force simp: record_link_def list_ex_iff)

lemma Link_eq_iff:
  "(l::Link) = \<lparr>left_pin_id = a, right_pin_id = b\<rparr> \<longleftrightarrow> left_pin_id l = a \<and> right_pin_id l = b"
  by (cases l) auto

lemma record_link_eq:
  "record_link p q (g::StateGenerator) =
     (if \<lparr>left_pin_id = pin_id p, right_pin_id = pin_id q\<rparr> \<in> set (links g)
      then (Inl DuplicateLink, g)
      else (Inr (), g\<lparr>links := links g @ [\<lparr>left_pin_id = pin_id p, right_pin_id = pin_id q\<rparr>]\<rparr>))"
proof (cases "\<lparr>left_pin_id = pin_id p, right_pin_id = pin_id q\<rparr> \<in> set (links g)")
  case True
  then show ?thesis by (simp add: record_link_dup)
next
  case False
  then have "\<not> list_ex (\<lambda>l. left_pin_id l = pin_id p \<and> right_pin_id l = pin_id q) (links g)"
    by (auto simp: list_ex_iff Link_eq_iff[symmetric])
  with False show ?thesis by (simp add: record_link_def)
qed

lemma record_link_not_missing: "fst (record_link p q g) \<noteq> Inl PinNotFound"
  by (simp add: record_link_def)

lemma find_pin_Some: "find_pin nm ps = Some p \<Longrightarrow> p \<in> set ps \<and> pin_name p = nm"
  by (auto simp: find_pin_def find_Some_iff)

lemma find_pin_None: "find_pin nm ps = None \<longleftrightarrow> nm \<notin> pin_name ` set ps"
  by (auto simp: find_pin_def find_None_iff)

lemma resolve_source_out: "resolve_source s sn = Some (p, True) \<Longrightarrow> p \<in> set (out_pins s)"
  by (auto simp: resolve_source_def split: option.splits dest: find_pin_Some)

lemma resolve_source_in: "resolve_source s sn = Some (p, False) \<Longrightarrow> p \<in> set (in_pins s)"
  by (auto simp: resolve_source_def split: option.splits dest: find_pin_Some)

lemma resolve_target_out: "resolve_target t tn = Some (p, True) \<Longrightarrow> p \<in> set (out_pins t)"
  by (auto simp: resolve_target_def split: option.splits dest: find_pin_Some)

lemma resolve_target_in: "resolve_target t tn = Some (p, False) \<Longrightarrow> p \<in> set (in_pins t)"
  by (auto simp: resolve_target_def split: option.splits dest: find_pin_Some)

lemma resolve_source_None:
  "resolve_source s sn = None \<longleftrightarrow> sn \<notin> pin_name ` set (out_pins s @ in_pins s)"
  by (auto simp: resolve_source_def find_pin_None split: option.splits dest: find_pin_Some)

lemma resolve_target_None:
  "resolve_target t tn = None \<longleftrightarrow> tn \<notin> pin_name ` set (in_pins t @ out_pins t)"
  by (auto simp: resolve_target_def find_pin_None split: option.splits dest: find_pin_Some)

lemma link_pins_missing_iff:
  "fst (link_pins s sn t tn g) = Inl PinNotFound \<longleftrightarrow>
     resolve_source s sn = None \<or> resolve_target t tn = None"
  by (auto simp: link_pins_def record_link_not_missing split: option.splits prod.splits)

text \<open>
  C1 (as amended). When both node arguments are nodes of the graph, a successful
  \<open>link_pins\<close> leaves the nodes alone and appends exactly one link whose \<open>left_pin_id\<close> is
  the id of a pin in the \<open>out_pins\<close> of a node of the graph and whose \<open>right_pin_id\<close> is
  the id of a pin in the \<open>in_pins\<close> of a node of the graph. Either the source argument
  gave the output pin and the target argument the input pin, or the source argument gave
  the input pin and the pair is swapped before it is recorded.
\<close>

theorem link_pins_left_right:
  assumes ok: "link_pins s sn t tn g = (Inr (), g')"
    and s: "s \<in> set (nodes g)" and t: "t \<in> set (nodes g)"
  shows "\<exists>p q. nodes g' = nodes g
           \<and> links g' = links g @ [\<lparr>left_pin_id = pin_id p, right_pin_id = pin_id q\<rparr>]
           \<and> (\<exists>n \<in> set (nodes g'). p \<in> set (out_pins n))
           \<and> (\<exists>n \<in> set (nodes g'). q \<in> set (in_pins n))
           \<and> ((resolve_source s sn = Some (p, True) \<and> resolve_target t tn = Some (q, False))
              \<or> (resolve_source s sn = Some (q, False) \<and> resolve_target t tn = Some (p, True)))"
proof -
  from ok obtain sp so tp to where rs: "resolve_source s sn = Some (sp, so)"
      and rt: "resolve_target t tn = Some (tp, to)"
    by (auto simp: link_pins_def split: option.splits prod.splits)
  show ?thesis
  proof (cases so)
    case True
    with ok rs rt have nt: "\<not> to" and rl: "record_link sp tp g = (Inr (), g')"
      by (auto simp: link_pins_def split: if_splits)
    from record_link_ok[OF rl] have g': "g' = g\<lparr>links := links g @ [\<lparr>left_pin_id = pin_id sp, right_pin_id = pin_id tp\<rparr>]\<rparr>" .
    from rs True have "sp \<in> set (out_pins s)" by (auto dest: resolve_source_out)
    moreover from rt nt have "tp \<in> set (in_pins t)" by (auto dest: resolve_target_in)
    ultimately show ?thesis using g' s t rs rt True nt
      by (intro exI[of _ sp] exI[of _ tp]) auto
  next
    case False
    with ok rs rt have nt: "to" and rl: "record_link tp sp g = (Inr (), g')"
      by (auto simp: link_pins_def split: if_splits)
    from record_link_ok[OF rl] have g': "g' = g\<lparr>links := links g @ [\<lparr>left_pin_id = pin_id tp, right_pin_id = pin_id sp\<rparr>]\<rparr>" .
    from rs False have "sp \<in> set (in_pins s)" by (auto dest: resolve_source_in)
    moreover from rt nt have "tp \<in> set (out_pins t)" by (auto dest: resolve_target_out)
    ultimately show ?thesis using g' s t rs rt False nt
      by (intro exI[of _ tp] exI[of _ sp]) auto
  qed
qed

text \<open>The data link of the two-node graph, whose node arguments are in the graph.\<close>

theorem link_pins_left_right_witness:
  "link_pins demo_source ''Pos'' demo_target ''Position'' demo_graph = (Inr (), demo_linked)
   \<and> demo_source \<in> set (nodes demo_graph) \<and> demo_target \<in> set (nodes demo_graph)
   \<and> (\<exists>p q. nodes demo_linked = nodes demo_graph
           \<and> links demo_linked = links demo_graph @ [\<lparr>left_pin_id = pin_id p, right_pin_id = pin_id q\<rparr>]
           \<and> (\<exists>n \<in> set (nodes demo_linked). p \<in> set (out_pins n))
           \<and> (\<exists>n \<in> set (nodes demo_linked). q \<in> set (in_pins n)))"
proof -
  have s: "demo_source \<in> set (nodes demo_graph)" and t: "demo_target \<in> set (nodes demo_graph)"
    by (simp_all add: demo_graph_eq)
  from link_pins_left_right[OF demo_link_ok s t] demo_link_ok s t show ?thesis by blast
qed

text \<open>
  C1 as stated fails: \<open>link_pins\<close> never looks at \<open>self.nodes\<close>. Called on a fresh graph
  with two nodes that another generator made, it records the link although the graph
  has no node at all, so no node of the graph owns pin 50001 or pin 50003.
\<close>

theorem link_pins_foreign_nodes:
  "link_pins demo_source ''Pos'' demo_target ''Position'' StateGenerator_init
     = (Inr (), \<lparr>nodes = [], links = [\<lparr>left_pin_id = 50001, right_pin_id = 50003\<rparr>],
                 current_id = 50000\<rparr>)"
  by (simp add: link_defs demo_source_eq demo_target_eq StateGenerator_init_def BASE_ID_def)

text \<open>
  C2. If a call of \<open>link_pins\<close> records a link on some graph, then the same call on any
  graph \<open>h\<close> whose link sequence already holds that (left, right) pair fails with
  \<open>DuplicateLink\<close> and returns \<open>h\<close> as it was. And whenever \<open>link_pins\<close> fails, with any
  of its four errors, the graph it leaves is the graph it was given: node sequence,
  link sequence and id counter.
\<close>

theorem link_pins_duplicate_atomic:
  "(\<forall>g' h::StateGenerator. link_pins s sn t tn g = (Inr (), g') \<and> last (links g') \<in> set (links h)
       \<longrightarrow> link_pins s sn t tn h = (Inl DuplicateLink, h))
   \<and> (\<forall>e. fst (link_pins s sn t tn g) = Inl e \<longrightarrow> snd (link_pins s sn t tn g) = g)"
proof (intro conjI allI impI)
  fix g' h :: StateGenerator
  assume a: "link_pins s sn t tn g = (Inr (), g') \<and> last (links g') \<in> set (links h)"
  then show "link_pins s sn t tn h = (Inl DuplicateLink, h)"
    by (auto simp: link_pins_def split: option.splits prod.splits if_splits
             dest!: record_link_ok intro!: record_link_dup)
next
  fix e assume "fst (link_pins s sn t tn g) = Inl e"
  then show "snd (link_pins s sn t tn g) = g" by (rule link_pins_failed)
qed

text \<open>
  The link of the two-node graph asked for a second time, and a failed request with
  mismatched types.
\<close>

theorem link_pins_duplicate_atomic_witness:
  "link_pins demo_source ''Pos'' demo_target ''Position'' demo_graph = (Inr (), demo_linked)
   \<and> last (links demo_linked) \<in> set (links demo_linked)
   \<and> link_pins demo_source ''Pos'' demo_target ''Position'' demo_linked = (Inl DuplicateLink, demo_linked)
   \<and> fst (link_pins demo_source ''Pos'' demo_target ''In'' demo_graph) = Inl TypeMismatch
   \<and> snd (link_pins demo_source ''Pos'' demo_target ''In'' demo_graph) = demo_graph"
proof -
  have l: "last (links demo_linked) \<in> set (links demo_linked)"
    by (simp add: demo_linked_eq)
  have f: "fst (link_pins demo_source ''Pos'' demo_target ''In'' demo_graph) = Inl TypeMismatch"
    by (simp add: link_defs demo_source_eq demo_target_eq)
  from link_pins_duplicate_atomic[of demo_source "''Pos''" demo_target "''Position''" demo_graph]
       link_pins_duplicate_atomic[of demo_source "''Pos''" demo_target "''In''" demo_graph]
       demo_link_ok l f
  show ?thesis by blast
qed

text \<open>
  C5 (as amended). \<open>link_pins\<close> fails with \<open>PinNotFound\<close>, leaving the graph as it was,
  exactly when the source name is in neither array of the source node or the target
  name is in neither array of the target node. Otherwise the source name is looked up
  in the source's \<open>out_pins\<close> first and in its \<open>in_pins\<close> only when \<open>out_pins\<close> has no pin
  of that name, and the target name is looked up in the target's \<open>in_pins\<close> first and in
  its \<open>out_pins\<close> only when \<open>in_pins\<close> has no pin of that name. The four cases below fix
  the outcome for each combination of the arrays in which the two pins are found: an
  output pin with an input pin is linked, an input pin with an output pin is linked
  after the swap, and two pins of the same array class are refused with
  \<open>InvalidLinkShape\<close>; in every case a difference of pin types is reported first.
\<close>

theorem link_pins_resolution:
  "(fst (link_pins s sn t tn g) = Inl PinNotFound \<longleftrightarrow>
       sn \<notin> pin_name ` set (out_pins s @ in_pins s) \<or> tn \<notin> pin_name ` set (in_pins t @ out_pins t))
   \<and> (sn \<notin> pin_name ` set (out_pins s @ in_pins s) \<or> tn \<notin> pin_name ` set (in_pins t @ out_pins t)
        \<longrightarrow> link_pins s sn t tn g = (Inl PinNotFound, g))
   \<and> (\<forall>p q. find_pin sn (out_pins s) = Some p \<and> find_pin tn (in_pins t) = Some q
        \<longrightarrow> link_pins s sn t tn g =
             (if pin_type p \<noteq> pin_type q then (Inl TypeMismatch, g)
              else if \<lparr>left_pin_id = pin_id p, right_pin_id = pin_id q\<rparr> \<in> set (links g)
              then (Inl DuplicateLink, g)
              else (Inr (), g\<lparr>links := links g @ [\<lparr>left_pin_id = pin_id p, right_pin_id = pin_id q\<rparr>]\<rparr>)))
   \<and> (\<forall>p q. find_pin sn (out_pins s) = Some p
          \<and> find_pin tn (in_pins t) = None \<and> find_pin tn (out_pins t) = Some q
        \<longrightarrow> link_pins s sn t tn g =
             (if pin_type p \<noteq> pin_type q then (Inl TypeMismatch, g) else (Inl InvalidLinkShape, g)))
   \<and> (\<forall>p q. find_pin sn (out_pins s) = None \<and> find_pin sn (in_pins s) = Some p
          \<and> find_pin tn (in_pins t) = Some q
        \<longrightarrow> link_pins s sn t tn g =
             (if pin_type p \<noteq> pin_type q then (Inl TypeMismatch, g) else (Inl InvalidLinkShape, g)))
   \<and> (\<forall>p q. find_pin sn (out_pins s) = None \<and> find_pin sn (in_pins s) = Some p
          \<and> find_pin tn (in_pins t) = None \<and> find_pin tn (out_pins t) = Some q
        \<longrightarrow> link_pins s sn t tn g =
             (if pin_type p \<noteq> pin_type q then (Inl TypeMismatch, g)
              else if \<lparr>left_pin_id = pin_id q, right_pin_id = pin_id p\<rparr> \<in> set (links g)
              then (Inl DuplicateLink, g)
              else (Inr (), g\<lparr>links := links g @ [\<lparr>left_pin_id = pin_id q, right_pin_id = pin_id p\<rparr>]\<rparr>)))"
proof -
  have miss: "fst (link_pins s sn t tn g) = Inl PinNotFound \<longleftrightarrow>
       sn \<notin> pin_name ` set (out_pins s @ in_pins s) \<or> tn \<notin> pin_name ` set (in_pins t @ out_pins t)"
    by (simp only: link_pins_missing_iff resolve_source_None resolve_target_None)
  have miss': "sn \<notin> pin_name ` set (out_pins s @ in_pins s) \<or> tn \<notin> pin_name ` set (in_pins t @ out_pins t)
        \<longrightarrow> link_pins s sn t tn g = (Inl PinNotFound, g)"
  proof
    assume "sn \<notin> pin_name ` set (out_pins s @ in_pins s) \<or> tn \<notin> pin_name ` set (in_pins t @ out_pins t)"
    then have "resolve_source s sn = None \<or> resolve_target t tn = None"
      by (simp only: resolve_source_None resolve_target_None)
    then show "link_pins s sn t tn g = (Inl PinNotFound, g)"
      by (auto simp: link_pins_def split: option.splits)
  qed
  have rest: "(\<forall>p q. find_pin sn (out_pins s) = Some p \<and> find_pin tn (in_pins t) = Some q
        \<longrightarrow> link_pins s sn t tn g =
             (if pin_type p \<noteq> pin_type q then (Inl TypeMismatch, g) else record_link p q g))
   \<and> (\<forall>p q. find_pin sn (out_pins s) = Some p
          \<and> find_pin tn (in_pins t) = None \<and> find_pin tn (out_pins t) = Some q
        \<longrightarrow> link_pins s sn t tn g =
             (if pin_type p \<noteq> pin_type q then (Inl TypeMismatch, g) else (Inl InvalidLinkShape, g)))
   \<and> (\<forall>p q. find_pin sn (out_pins s) = None \<and> find_pin sn (in_pins s) = Some p
          \<and> find_pin tn (in_pins t) = Some q
        \<longrightarrow> link_pins s sn t tn g =
             (if pin_type p \<noteq> pin_type q then (Inl TypeMismatch, g) else (Inl InvalidLinkShape, g)))
   \<and> (\<forall>p q. find_pin sn (out_pins s) = None \<and> find_pin sn (in_pins s) = Some p
          \<and> find_pin tn (in_pins t) = None \<and> find_pin tn (out_pins t) = Some q
        \<longrightarrow> link_pins s sn t tn g =
             (if pin_type p \<noteq> pin_type q then (Inl TypeMismatch, g) else record_link q p g))"
    by (simp add: link_pins_def resolve_source_def resolve_target_def)
  from miss miss' rest show ?thesis unfolding record_link_eq by blast
qed

text \<open>
  A node with the name \<open>X\<close> in both arrays as source and as target, the two refused
  shapes, an execution link given in the inverted order, a type mismatch and a missing
  name.
\<close>

theorem link_pins_resolution_witness:
  "find_pin ''X'' (out_pins twin_node) = Some \<lparr>pin_id = 3, pin_name = ''X'', pin_type = EXECUTION\<rparr>
   \<and> find_pin ''X'' (in_pins twin_node) = Some \<lparr>pin_id = 2, pin_name = ''X'', pin_type = EXECUTION\<rparr>
   \<and> link_pins twin_node ''X'' twin_node ''X'' demo_graph
       = (Inr (), demo_graph\<lparr>links := [\<lparr>left_pin_id = 3, right_pin_id = 2\<rparr>]\<rparr>)
   \<and> find_pin ''Out'' (in_pins demo_target) = None
   \<and> find_pin ''Out'' (out_pins demo_target) = Some \<lparr>pin_id = 50004, pin_name = ''Out'', pin_type = EXECUTION\<rparr>
   \<and> link_pins twin_node ''X'' demo_target ''Out'' demo_graph = (Inl InvalidLinkShape, demo_graph)
   \<and> find_pin ''In'' (out_pins demo_target) = None
   \<and> find_pin ''In'' (in_pins demo_target) = Some \<lparr>pin_id = 50002, pin_name = ''In'', pin_type = EXECUTION\<rparr>
   \<and> link_pins demo_target ''In'' twin_node ''X'' demo_graph = (Inl InvalidLinkShape, demo_graph)
   \<and> link_pins demo_target ''In'' demo_target ''Out'' demo_graph
       = (Inr (), demo_graph\<lparr>links := [\<lparr>left_pin_id = 50004, right_pin_id = 50002\<rparr>]\<rparr>)
   \<and> find_pin ''Position'' (in_pins demo_target) = Some \<lparr>pin_id = 50003, pin_name = ''Position'', pin_type = VECTOR2\<rparr>
   \<and> link_pins twin_node ''X'' demo_target ''Position'' demo_graph = (Inl TypeMismatch, demo_graph)
   \<and> ''Nope'' \<notin> pin_name ` set (out_pins demo_target @ in_pins demo_target)
   \<and> link_pins demo_target ''Nope'' demo_target ''Out'' demo_graph = (Inl PinNotFound, demo_graph)"
proof -
  have a: "find_pin ''X'' (out_pins twin_node) = Some \<lparr>pin_id = 3, pin_name = ''X'', pin_type = EXECUTION\<rparr>"
    and b: "find_pin ''X'' (in_pins twin_node) = Some \<lparr>pin_id = 2, pin_name = ''X'', pin_type = EXECUTION\<rparr>"
    by (simp_all add: find_pin_def twin_node_def)
  have c: "find_pin ''In'' (out_pins demo_target) = None"
    and d: "find_pin ''In'' (in_pins demo_target) = Some \<lparr>pin_id = 50002, pin_name = ''In'', pin_type = EXECUTION\<rparr>"
    and e: "find_pin ''Out'' (in_pins demo_target) = None"
    and f: "find_pin ''Out'' (out_pins demo_target) = Some \<lparr>pin_id = 50004, pin_name = ''Out'', pin_type = EXECUTION\<rparr>"
    and p: "find_pin ''Position'' (in_pins demo_target) = Some \<lparr>pin_id = 50003, pin_name = ''Position'', pin_type = VECTOR2\<rparr>"
    by (simp_all add: find_pin_def demo_target_eq)
  have n: "''Nope'' \<notin> pin_name ` set (out_pins demo_target @ in_pins demo_target)"
    by (simp add: demo_target_eq)
  have l: "links demo_graph = []" by (simp add: demo_graph_eq)
  from link_pins_resolution[of twin_node "''X''" twin_node "''X''" demo_graph]
       link_pins_resolution[of twin_node "''X''" demo_target "''Out''" demo_graph]
       link_pins_resolution[of demo_target "''In''" twin_node "''X''" demo_graph]
       link_pins_resolution[of demo_target "''In''" demo_target "''Out''" demo_graph]
       link_pins_resolution[of twin_node "''X''" demo_target "''Position''" demo_graph]
       link_pins_resolution[of demo_target "''Nope''" demo_target "''Out''" demo_graph]
       a b c d e f p n l
  show ?thesis by simp
qed

text \<open>
  C5 as stated fails on the target side: for a node that carries \<open>X\<close> in both arrays the
  target resolves to the input pin (id 2), so the link is recorded; had it resolved to
  the output pin, both pins would be outputs and the call would be refused.
\<close>

theorem link_pins_target_prefers_input:
  "link_pins twin_node ''X'' twin_node ''X'' StateGenerator_init
     = (Inr (), \<lparr>nodes = [], links = [\<lparr>left_pin_id = 3, right_pin_id = 2\<rparr>],
                 current_id = 50000\<rparr>)"
  by (simp add: link_defs twin_node_def StateGenerator_init_def BASE_ID_def)

text \<open>
  C8. Whenever both names resolve and the two resolved pins declare different pin types,
  \<open>link_pins\<close> fails with \<open>TypeMismatch\<close> and the graph is unchanged; the arrays the pins
  came from (the flags \<open>a\<close> and \<open>b\<close>) and the argument position play no part. The
  comparison is equality on \<open>PinType\<close>.
\<close>

theorem link_pins_type_mismatch:
  "resolve_source s sn = Some (p, a) \<Longrightarrow> resolve_target t tn = Some (q, b) \<Longrightarrow>
   pin_type p \<noteq> pin_type q \<Longrightarrow> link_pins s sn t tn g = (Inl TypeMismatch, g)"
  by (simp add: link_pins_def)

text \<open>A Vector2 output and an Execution input, requested in both argument orders.\<close>

theorem link_pins_type_mismatch_witness:
  "resolve_source demo_source ''Pos'' = Some (\<lparr>pin_id = 50001, pin_name = ''Pos'', pin_type = VECTOR2\<rparr>, True)
   \<and> resolve_target demo_target ''In'' = Some (\<lparr>pin_id = 50002, pin_name = ''In'', pin_type = EXECUTION\<rparr>, False)
   \<and> VECTOR2 \<noteq> EXECUTION
   \<and> link_pins demo_source ''Pos'' demo_target ''In'' demo_graph = (Inl TypeMismatch, demo_graph)
   \<and> resolve_source demo_target ''In'' = Some (\<lparr>pin_id = 50002, pin_name = ''In'', pin_type = EXECUTION\<rparr>, False)
   \<and> resolve_target demo_source ''Pos'' = Some (\<lparr>pin_id = 50001, pin_name = ''Pos'', pin_type = VECTOR2\<rparr>, True)
   \<and> link_pins demo_target ''In'' demo_source ''Pos'' demo_graph = (Inl TypeMismatch, demo_graph)"
proof -
  have a: "resolve_source demo_source ''Pos'' = Some (\<lparr>pin_id = 50001, pin_name = ''Pos'', pin_type = VECTOR2\<rparr>, True)"
    by (simp add: resolve_source_def find_pin_def demo_source_eq)
  have b: "resolve_target demo_target ''In'' = Some (\<lparr>pin_id = 50002, pin_name = ''In'', pin_type = EXECUTION\<rparr>, False)"
    by (simp add: resolve_target_def find_pin_def demo_target_eq)
  have c: "resolve_source demo_target ''In'' = Some (\<lparr>pin_id = 50002, pin_name = ''In'', pin_type = EXECUTION\<rparr>, False)"
    by (simp add: resolve_source_def find_pin_def demo_target_eq)
  have d: "resolve_target demo_source ''Pos'' = Some (\<lparr>pin_id = 50001, pin_name = ''Pos'', pin_type = VECTOR2\<rparr>, True)"
    by (simp add: resolve_target_def find_pin_def demo_source_eq)
  from link_pins_type_mismatch[OF a b, of demo_graph] link_pins_type_mismatch[OF c d, of demo_graph] a b c d
  show ?thesis by simp
qed

section \<open>The id allocator\<close>


lemma create_pins_ids:
  "create_pins specs g = (ps, g') \<Longrightarrow>
     map pin_id ps = [current_id g + 1 .. current_id g + int (length specs)]
     \<and> g' = g\<lparr>current_id := current_id g + int (length specs)\<rparr>"
proof (induction specs arbitrary: g ps g')
  case Nil
  then show ?case by simp
next
  case (Cons a specs)
  obtain nm ty where a: "a = (nm, ty)" by (cases a)
  let ?g1 = "g\<lparr>current_id := current_id g + 1\<rparr>"
  obtain qs g2 where r: "create_pins specs ?g1 = (qs, g2)" by (cases "create_pins specs ?g1")
  from Cons.IH[OF r] have ih: "map pin_id qs = [current_id g + 2 .. current_id g + 1 + int (length specs)]"
     and g2: "g2 = g\<lparr>current_id := current_id g + 1 + int (length specs)\<rparr>"
    by (simp_all add: add.assoc)
  from Cons.prems a r have ps: "ps = \<lparr>pin_id = current_id g + 1, pin_name = nm, pin_type = ty\<rparr> # qs"
     and g': "g' = g2"
    by (simp_all add: create_pin_def get_next_id_def)
  have "[current_id g + 1 .. current_id g + int (length (a # specs))]
          = (current_id g + 1) # [current_id g + 2 .. current_id g + 1 + int (length specs)]"
    by (subst upto_rec1) (simp_all add: algebra_simps)
  with ps ih g' g2 show ?case by (simp add: algebra_simps)
qed

lemma upto_append: "a \<le> b \<Longrightarrow> b \<le> c \<Longrightarrow> [a + 1 .. b] @ [b + 1 .. c] = [a + 1 .. (c::int)]"
proof (cases "a = b")
  case True
  then show ?thesis by simp
next
  case False
  assume "a \<le> b" "b \<le> c"
  with False have "a + 1 \<le> b" by simp
  from upto_split2[OF this \<open>b \<le> c\<close>] show ?thesis by simp
qed

lemma make_node_ids:
  assumes "make_node kind pos ins outs cfg g = (n, g')"
  shows "nodes g' = nodes g @ [n] \<and> links g' = links g \<and> current_id g \<le> current_id g'
         \<and> node_pin_ids n = [current_id g + 1 .. current_id g']"
proof -
  obtain ip g1 where i: "create_pins ins g = (ip, g1)" by (cases "create_pins ins g")
  obtain op g2 where out: "create_pins outs g1 = (op, g2)" by (cases "create_pins outs g1")
  from create_pins_ids[OF i] have ipid: "map pin_id ip = [current_id g + 1 .. current_id g + int (length ins)]"
    and g1: "g1 = g\<lparr>current_id := current_id g + int (length ins)\<rparr>" by simp_all
  from create_pins_ids[OF out] g1
  have opid: "map pin_id op = [current_id g + int (length ins) + 1 .. current_id g + int (length ins) + int (length outs)]"
    and g2: "g2 = g\<lparr>current_id := current_id g + int (length ins) + int (length outs)\<rparr>" by simp_all
  from assms i out have n: "n = \<lparr>node_type = NodeType_value kind, position = pos,
                  in_pins = ip, out_pins = op, config = cfg\<rparr>"
    and g': "g' = g2\<lparr>nodes := nodes g2 @ [n]\<rparr>"
    by (auto simp: make_node_def Let_def)
  have "[current_id g + 1 .. current_id g + int (length ins)]
        @ [current_id g + int (length ins) + 1 .. current_id g + int (length ins) + int (length outs)]
        = [current_id g + 1 .. current_id g + int (length ins) + int (length outs)]"
    by (rule upto_append) simp_all
  with n g' g2 ipid opid show ?thesis by (simp add: node_pin_ids_def)
qed

lemma ids_inv_init: "ids_inv StateGenerator_init"
  by (simp add: ids_inv_def StateGenerator_init_def issued_ids_def)

lemma ids_inv_make_node: "ids_inv g \<Longrightarrow> ids_inv (snd (make_node kind pos ins outs cfg g))"
proof -
  assume inv: "ids_inv g"
  obtain n g' where r: "make_node kind pos ins outs cfg g = (n, g')"
    by (cases "make_node kind pos ins outs cfg g")
  from make_node_ids[OF r] inv have "ids_inv g'"
    by (simp add: ids_inv_def issued_ids_def upto_append)
  with r show ?thesis by simp
qed

lemma ids_inv_call: "ids_inv g \<Longrightarrow> ids_inv (snd (call_factory c g))"
  by (cases c) (simp_all add: factory_defs Let_def ids_inv_make_node)

lemma ids_inv_calls: "ids_inv g \<Longrightarrow> ids_inv (call_factories cs g)"
  by (induction cs arbitrary: g) (simp_all add: ids_inv_call)

text \<open>
  C7. After any sequence of factory calls on a fresh generator, the pin ids of the
  graph, read in creation order, are exactly \<open>BASE_ID + 1, BASE_ID + 2, ...\<close> up to the
  current counter: they are strictly increasing, pairwise distinct, and each one is
  greater than \<open>BASE_ID\<close>.
\<close>

theorem issued_ids_increasing:
  "issued_ids (call_factories cs StateGenerator_init)
     = [BASE_ID + 1 .. current_id (call_factories cs StateGenerator_init)]
   \<and> sorted_wrt (<) (issued_ids (call_factories cs StateGenerator_init))
   \<and> distinct (issued_ids (call_factories cs StateGenerator_init))
   \<and> (\<forall>i \<in> set (issued_ids (call_factories cs StateGenerator_init)). BASE_ID < i)"
proof -
  have "ids_inv (call_factories cs StateGenerator_init)"
    by (rule ids_inv_calls[OF ids_inv_init])
  then show ?thesis by (simp add: ids_inv_def)
qed

text \<open>A position source followed by a movement node: four pins.\<close>

theorem issued_ids_increasing_witness:
  "issued_ids (call_factories [Player_pos (0, 0), Move_to (0, 0) False False] StateGenerator_init)
     = [50001, 50002, 50003, 50004]
   \<and> sorted_wrt (<) [50001, 50002, 50003, 50004 :: int]
   \<and> distinct [50001, 50002, 50003, 50004 :: int]
   \<and> BASE_ID < 50001 \<and> BASE_ID < 50002 \<and> BASE_ID < 50003 \<and> BASE_ID < 50004"
proof -
  have e: "issued_ids (call_factories [Player_pos (0, 0), Move_to (0, 0) False False] StateGenerator_init)
     = [50001, 50002, 50003, 50004]"
    by (simp add: issued_ids_def node_pin_ids_def factory_defs alloc_defs)
  from issued_ids_increasing[of "[Player_pos (0, 0), Move_to (0, 0) False False]"]
  show ?thesis unfolding e by simp
qed

lemma map_of_dict_update:
  "map_of (dict_update d e) k = (case map_of (rev e) k of Some v \<Rightarrow> Some v | None \<Rightarrow> map_of d k)"
  by (induction d e rule: dict_update.induct) (auto simp: update_conv' map_add_def split: option.splits)

lemma map_of_rev_distinct: "distinct (map fst xs) \<Longrightarrow> map_of (rev xs) = map_of xs"
proof (induction xs)
  case Nil
  then show ?case by simp
next
  case (Cons p xs)
  obtain k v where p: "p = (k, v)" by (cases p)
  from Cons.prems have k: "k \<notin> fst ` set xs" and d: "distinct (map fst xs)"
    by (simp_all add: p)
  from Cons.IH[OF d] have ih: "map_of (rev xs) = map_of xs" .
  from k have none: "map_of xs k = None" by (simp add: map_of_eq_None_iff)
  show ?case
  proof (rule ext)
    fix x
    show "map_of (rev (p # xs)) x = map_of (p # xs) x"
      using ih none by (cases "x = k") (simp_all add: p map_add_def split: option.splits)
  qed
qed

lemma keys_dict_update:
  "take (length d) (map fst (dict_update d e)) = map fst d"
proof (induction d e rule: dict_update.induct)
  case (1 d)
  then show ?case by simp
next
  case (2 d k v rest)
  have l: "length d \<le> length (AList.update k v d)"
    by (metis length_map update_keys length_append le_add1 order_refl)
  have "take (length d) (map fst (dict_update (AList.update k v d) rest))
        = take (length d) (take (length (AList.update k v d)) (map fst (dict_update (AList.update k v d) rest)))"
    using l by (simp add: min_def)
  also have "\<dots> = take (length d) (map fst (AList.update k v d))" by (simp only: 2)
  also have "\<dots> = map fst d" by (simp add: update_keys)
  finally show ?case by simp
qed

text \<open>
  C10. \<open>Node.to_dict\<close> merges the configuration last and checks nothing: every key that
  the configuration binds has the configuration's value in the record, also when the
  key is one of \<open>nodeType\<close>, \<open>position\<close>, \<open>inPins\<close>, \<open>outPins\<close> that the function wrote
  before. The overwritten key keeps its place: the record still begins with
  \<open>nodeType\<close> and \<open>position\<close>. (A Python dictionary has each key once.)
\<close>

theorem Node_to_dict_config_wins:
  "distinct (map fst (config n)) \<Longrightarrow> map_of (config n) k = Some v \<Longrightarrow>
     map_of (Node_to_dict n) k = Some v
     \<and> take 2 (map fst (Node_to_dict n)) = [''nodeType'', ''position'']"
proof -
  assume d: "distinct (map fst (config n))" and k: "map_of (config n) k = Some v"
  from d have "map_of (rev (config n)) = map_of (config n)" by (rule map_of_rev_distinct)
  with k have "map_of (Node_to_dict n) k = Some v"
    by (simp add: Node_to_dict_def Let_def map_of_dict_update)
  moreover have "take 2 (map fst (Node_to_dict n)) = [''nodeType'', ''position'']"
  proof -
    let ?r = "[(''nodeType'', JStr (node_type n)),
                    (''position'', JDict [(''x'', JFloat (fst (position n))),
                                          (''y'', JFloat (snd (position n)))])]"
    obtain r' where r': "Node_to_dict n = dict_update (?r @ r') (config n)"
      by (cases "in_pins n = []"; cases "out_pins n = []") (auto simp: Node_to_dict_def Let_def)
    have "take 2 (map fst (dict_update (?r @ r') (config n)))
          = take 2 (take (length (?r @ r')) (map fst (dict_update (?r @ r') (config n))))"
      by (simp add: min_def)
    also have "\<dots> = take 2 (map fst (?r @ r'))" by (simp only: keys_dict_update)
    finally show ?thesis using r' by simp
  qed
  ultimately show ?thesis by simp
qed

text \<open>A node whose configuration binds \<open>position\<close> and \<open>nodeType\<close>.\<close>

theorem Node_to_dict_config_wins_witness:
  "distinct (map fst (config clash_node))
   \<and> map_of (config clash_node) ''position'' = Some (JStr ''here'')
   \<and> map_of (Node_to_dict clash_node) ''position'' = Some (JStr ''here'')
   \<and> map_of (config clash_node) ''nodeType'' = Some (JInt 7)
   \<and> map_of (Node_to_dict clash_node) ''nodeType'' = Some (JInt 7)"
proof -
  have d: "distinct (map fst (config clash_node))" by (simp add: clash_node_def)
  have a: "map_of (config clash_node) ''position'' = Some (JStr ''here'')"
    and b: "map_of (config clash_node) ''nodeType'' = Some (JInt 7)"
    by (simp_all add: clash_node_def)
  from Node_to_dict_config_wins[OF d a] Node_to_dict_config_wins[OF d b] d a b
  show ?thesis by simp
qed

section \<open>The serialiser and the patterns\<close>


lemma map_of_dict_update_other:
  "k \<notin> fst ` set e \<Longrightarrow> map_of (dict_update d e) k = map_of d k"
proof -
  assume "k \<notin> fst ` set e"
  then have "map_of (rev e) k = None" by (simp add: map_of_eq_None_iff)
  then show ?thesis by (simp add: map_of_dict_update)
qed

text \<open>
  C6 (as amended). The document has the top-level keys \<open>links\<close>, \<open>nodes\<close>, \<open>version\<close>,
  and \<open>version\<close> is the string \<open>1.0\<close>. Each link record is the integer pair under the
  field names \<open>leftPinID\<close> and \<open>rightPinID\<close>. Each node record whose configuration does
  not bind \<open>nodeType\<close> carries the kind tag under \<open>nodeType\<close>, and each one whose
  configuration does not bind \<open>position\<close> carries \<open>position\<close> as the pair of floats
  \<open>x\<close>, \<open>y\<close>.
\<close>

theorem generate_result_format:
  "map fst (generate_result g) = [''links'', ''nodes'', ''version'']
   \<and> map_of (generate_result g) ''version'' = Some (JStr ''1.0'')
   \<and> map_of (generate_result g) ''links''
       = Some (JList (map (\<lambda>l. JDict [(''leftPinID'', JInt (left_pin_id l)),
                                        (''rightPinID'', JInt (right_pin_id l))]) (links g)))
   \<and> map_of (generate_result g) ''nodes'' = Some (JList (map (\<lambda>n. JDict (Node_to_dict n)) (nodes g)))
   \<and> (\<forall>n \<in> set (nodes g). ''nodeType'' \<notin> fst ` set (config n) \<longrightarrow>
          map_of (Node_to_dict n) ''nodeType'' = Some (JStr (node_type n)))
   \<and> (\<forall>n \<in> set (nodes g). ''position'' \<notin> fst ` set (config n) \<longrightarrow>
          map_of (Node_to_dict n) ''position''
            = Some (JDict [(''x'', JFloat (fst (position n))), (''y'', JFloat (snd (position n)))]))"
  by (simp add: generate_result_def Link_to_dict_def Node_to_dict_def Let_def
                map_of_dict_update_other update_conv')

text \<open>The linked two-node graph: no configuration there binds a reserved key.\<close>

theorem generate_result_format_witness:
  "nodes demo_linked = [demo_source, demo_target]
   \<and> ''nodeType'' \<notin> fst ` set (config demo_source) \<and> ''position'' \<notin> fst ` set (config demo_source)
   \<and> ''nodeType'' \<notin> fst ` set (config demo_target) \<and> ''position'' \<notin> fst ` set (config demo_target)
   \<and> map_of (generate_result demo_linked) ''links''
       = Some (JList [JDict [(''leftPinID'', JInt 50001), (''rightPinID'', JInt 50003)]])
   \<and> map_of (Node_to_dict demo_source) ''nodeType'' = Some (JStr ''PlayerPos'')
   \<and> map_of (Node_to_dict demo_target) ''position'' = Some (JDict [(''x'', JFloat 0), (''y'', JFloat 0)])"
proof -
  have n: "nodes demo_linked = [demo_source, demo_target]"
    by (simp add: demo_linked_eq)
  have h: "''nodeType'' \<notin> fst ` set (config demo_source) \<and> ''position'' \<notin> fst ` set (config demo_source)
         \<and> ''nodeType'' \<notin> fst ` set (config demo_target) \<and> ''position'' \<notin> fst ` set (config demo_target)"
    by (simp add: demo_source_eq demo_target_eq)
  from generate_result_format[of demo_linked] n h show ?thesis
    by (simp add: demo_linked_eq) (simp add: demo_source_eq demo_target_eq)
qed

text \<open>
  C6 as stated fails: the link record has no field \<open>leftPinId\<close> or \<open>rightPinId\<close> (the
  code writes \<open>leftPinID\<close>, \<open>rightPinID\<close>), the node record has no field \<open>kind\<close> (the code
  writes \<open>nodeType\<close>), and a node whose configuration binds \<open>position\<close> is serialised
  with that value in place of the pair of floats.
\<close>

theorem generate_result_field_names:
  "generate_result demo_linked =
     [(''links'', JList [JDict [(''leftPinID'', JInt 50001), (''rightPinID'', JInt 50003)]]),
      (''nodes'', JList [JDict (Node_to_dict demo_source), JDict (Node_to_dict demo_target)]),
      (''version'', JStr ''1.0'')]
   \<and> Node_to_dict demo_source =
       [(''nodeType'', JStr ''PlayerPos''),
        (''position'', JDict [(''x'', JFloat 0), (''y'', JFloat 0)]),
        (''outPins'', JList [JDict [(''id'', JInt 50001), (''name'', JStr ''Pos'')]])]
   \<and> map_of (Node_to_dict demo_source) ''kind'' = None
   \<and> map_of (Link_to_dict \<lparr>left_pin_id = 50001, right_pin_id = 50003\<rparr>) ''leftPinId'' = None
   \<and> map_of (Link_to_dict \<lparr>left_pin_id = 50001, right_pin_id = 50003\<rparr>) ''rightPinId'' = None
   \<and> Node_to_dict clash_node = [(''nodeType'', JInt 7), (''position'', JStr ''here'')]"
  by (simp add: generate_result_def demo_linked_eq Link_to_dict_def)
     (simp add: Node_to_dict_def Pin_to_dict_def demo_source_eq clash_node_def)

text \<open>
  C4 (as amended). For every anchor position and teleport flag, \<open>create_move_to_target\<close>
  with \<open>offset_dist = 2.5\<close> on a fresh graph succeeds and yields exactly two nodes, the
  offset node and the move node, and exactly one link, from the offset node's \<open>Result\<close>
  output to the move node's \<open>Position\<close> input.
\<close>

theorem move_to_target_offset_nodes:
  "\<exists>offset move g'.
      create_move_to_target pos teleport (Some 2.5) StateGenerator_init
        = (Inr [(''offset'', offset), (''move'', move)], g')
      \<and> nodes g' = [offset, move]
      \<and> node_type offset = ''OffsetPos'' \<and> node_type move = ''MoveTo''
      \<and> config offset = [(''offsetDist'', JFloat 2.5)]
      \<and> (\<exists>p q. find_pin ''Result'' (out_pins offset) = Some p
               \<and> find_pin ''Position'' (in_pins move) = Some q
               \<and> links g' = [\<lparr>left_pin_id = pin_id p, right_pin_id = pin_id q\<rparr>])"
  by (cases pos)
     (simp add: create_move_to_target_def link_data_def H_SPACE_def factory_defs alloc_defs link_defs)

text \<open>C4 as stated fails: the pattern creates two nodes, not three.\<close>

theorem move_to_target_two_nodes:
  "length (nodes (snd (create_move_to_target (0, 0) False (Some 2.5) StateGenerator_init))) = 2"
  by (simp add: create_move_to_target_def link_data_def H_SPACE_def factory_defs alloc_defs link_defs)

section \<open>The beacon-search pattern\<close>

lemma beacon_eval:
  "\<exists>res g'. create_beacon_search e bp ns (x, y) dt StateGenerator_init = (Inr res, g')
      \<and> links g' = beacon_links
      \<and> map node_pin_ids (nodes g') = beacon_pin_ids"
proof -
  obtain n0 g1 where c0: "create_start_node (str_replace ''_clear'' ''_beacon'' ns) (x, y) StateGenerator_init = (n0, g1)"
    by (cases "create_start_node (str_replace ''_clear'' ''_beacon'' ns) (x, y) StateGenerator_init")
  have i0: "in_pins n0 = [\<lparr>pin_id = 50001, pin_name = ''In'', pin_type = EXECUTION\<rparr>]"
    and o0: "out_pins n0 = []"
    and s0: "g1 = \<lparr>nodes = [n0], links = [], current_id = 50001\<rparr>"
    using c0 by (auto simp: create_start_node_def alloc_defs)
  obtain n1 g2 where c1: "create_sequence (x - H_SPACE, y) g1 = (n1, g2)"
    by (cases "create_sequence (x - H_SPACE, y) g1")
  have i1: "in_pins n1 = [\<lparr>pin_id = 50002, pin_name = ''In'', pin_type = EXECUTION\<rparr>, \<lparr>pin_id = 50003, pin_name = ''In 2'', pin_type = EXECUTION\<rparr>, \<lparr>pin_id = 50004, pin_name = ''In 3'', pin_type = EXECUTION\<rparr>, \<lparr>pin_id = 50005, pin_name = ''In 4'', pin_type = EXECUTION\<rparr>, \<lparr>pin_id = 50006, pin_name = ''In 5'', pin_type = EXECUTION\<rparr>]"
    and o1: "out_pins n1 = [\<lparr>pin_id = 50007, pin_name = ''Out'', pin_type = EXECUTION\<rparr>]"
    and s1: "g2 = \<lparr>nodes = [n0, n1], links = [], current_id = 50007\<rparr>"
    using c1 unfolding s0 by (auto simp: create_sequence_def make_node_def create_pin_def get_next_id_def Let_def)
  obtain n2 g3 where c2: "create_if_node (x - 2 * H_SPACE, y) g2 = (n2, g3)"
    by (cases "create_if_node (x - 2 * H_SPACE, y) g2")
  have i2: "in_pins n2 = [\<lparr>pin_id = 50008, pin_name = ''True'', pin_type = EXECUTION\<rparr>, \<lparr>pin_id = 50009, pin_name = ''False'', pin_type = EXECUTION\<rparr>, \<lparr>pin_id = 50010, pin_name = ''Condition'', pin_type = BOOLEAN\<rparr>]"
    and o2: "out_pins n2 = [\<lparr>pin_id = 50011, pin_name = ''Out'', pin_type = EXECUTION\<rparr>]"
    and s2: "g3 = \<lparr>nodes = [n0, n1, n2], links = [], current_id = 50011\<rparr>"
    using c2 unfolding s1 by (auto simp: create_if_node_def make_node_def create_pin_def get_next_id_def Let_def)
  obtain n3 g4 where c3: "create_move_to (x - 3 * H_SPACE, y) True False g3 = (n3, g4)"
    by (cases "create_move_to (x - 3 * H_SPACE, y) True False g3")
  have i3: "in_pins n3 = [\<lparr>pin_id = 50012, pin_name = ''In'', pin_type = EXECUTION\<rparr>, \<lparr>pin_id = 50013, pin_name = ''Position'', pin_type = VECTOR2\<rparr>]"
    and o3: "out_pins n3 = [\<lparr>pin_id = 50014, pin_name = ''Out'', pin_type = EXECUTION\<rparr>]"
    and s3: "g4 = \<lparr>nodes = [n0, n1, n2, n3], links = [], current_id = 50014\<rparr>"
    using c3 unfolding s2 by (auto simp: create_move_to_def make_node_def create_pin_def get_next_id_def Let_def)
  obtain n4 g5 where c4: "create_player_pos (x - H_SPACE, y + DATA_OFFSET) g4 = (n4, g5)"
    by (cases "create_player_pos (x - H_SPACE, y + DATA_OFFSET) g4")
  have i4: "in_pins n4 = []"
    and o4: "out_pins n4 = [\<lparr>pin_id = 50015, pin_name = ''Pos'', pin_type = VECTOR2\<rparr>]"
    and s4: "g5 = \<lparr>nodes = [n0, n1, n2, n3, n4], links = [], current_id = 50015\<rparr>"
    using c4 unfolding s3 by (auto simp: create_player_pos_def make_node_def create_pin_def get_next_id_def Let_def)
  obtain n5 g6 where c5: "create_point_list [bp] (x - 2 * H_SPACE, y + DATA_OFFSET) False 1 g5 = (n5, g6)"
    by (cases "create_point_list [bp] (x - 2 * H_SPACE, y + DATA_OFFSET) False 1 g5")
  have i5: "in_pins n5 = []"
    and o5: "out_pins n5 = [\<lparr>pin_id = 50016, pin_name = ''Pos'', pin_type = VECTOR2\<rparr>]"
    and s5: "g6 = \<lparr>nodes = [n0, n1, n2, n3, n4, n5], links = [], current_id = 50016\<rparr>"
    using c5 unfolding s4 by (auto simp: create_point_list_def make_node_def create_pin_def get_next_id_def Let_def)
  obtain n6 g7 where c6: "create_operator (x - 3 * H_SPACE, y + DATA_OFFSET) 0 0 g6 = (n6, g7)"
    by (cases "create_operator (x - 3 * H_SPACE, y + DATA_OFFSET) 0 0 g6")
  have i6: "in_pins n6 = [\<lparr>pin_id = 50017, pin_name = ''A'', pin_type = VECTOR2\<rparr>, \<lparr>pin_id = 50018, pin_name = ''B'', pin_type = VECTOR2\<rparr>, \<lparr>pin_id = 50019, pin_name = ''Val'', pin_type = FLOAT\<rparr>]"
    and o6: "out_pins n6 = [\<lparr>pin_id = 50020, pin_name = ''Result'', pin_type = VECTOR2\<rparr>, \<lparr>pin_id = 50021, pin_name = ''Distance'', pin_type = FLOAT\<rparr>]"
    and s6: "g7 = \<lparr>nodes = [n0, n1, n2, n3, n4, n5, n6], links = [], current_id = 50021\<rparr>"
    using c6 unfolding s5 by (auto simp: create_operator_def make_node_def create_pin_def get_next_id_def Let_def)
  obtain n7 g8 where c7: "create_comparison (x - 4 * H_SPACE, y + DATA_OFFSET) 2 dt g7 = (n7, g8)"
    by (cases "create_comparison (x - 4 * H_SPACE, y + DATA_OFFSET) 2 dt g7")
  have i7: "in_pins n7 = [\<lparr>pin_id = 50022, pin_name = ''A'', pin_type = FLOAT\<rparr>]"
    and o7: "out_pins n7 = [\<lparr>pin_id = 50023, pin_name = ''Result'', pin_type = BOOLEAN\<rparr>]"
    and s7: "g8 = \<lparr>nodes = [n0, n1, n2, n3, n4, n5, n6, n7], links = [], current_id = 50023\<rparr>"
    using c7 unfolding s6 by (auto simp: create_comparison_def make_node_def create_pin_def get_next_id_def Let_def)
  obtain n8 g9 where c8: "create_if_node (x - 2 * H_SPACE, y + DEPTH_SPACE) g8 = (n8, g9)"
    by (cases "create_if_node (x - 2 * H_SPACE, y + DEPTH_SPACE) g8")
  have i8: "in_pins n8 = [\<lparr>pin_id = 50024, pin_name = ''True'', pin_type = EXECUTION\<rparr>, \<lparr>pin_id = 50025, pin_name = ''False'', pin_type = EXECUTION\<rparr>, \<lparr>pin_id = 50026, pin_name = ''Condition'', pin_type = BOOLEAN\<rparr>]"
    and o8: "out_pins n8 = [\<lparr>pin_id = 50027, pin_name = ''Out'', pin_type = EXECUTION\<rparr>]"
    and s8: "g9 = \<lparr>nodes = [n0, n1, n2, n3, n4, n5, n6, n7, n8], links = [], current_id = 50027\<rparr>"
    using c8 unfolding s7 by (auto simp: create_if_node_def make_node_def create_pin_def get_next_id_def Let_def)
  obtain n9 g10 where c9: "create_move_to (x - 3 * H_SPACE, y + DEPTH_SPACE) False False g9 = (n9, g10)"
    by (cases "create_move_to (x - 3 * H_SPACE, y + DEPTH_SPACE) False False g9")
  have i9: "in_pins n9 = [\<lparr>pin_id = 50028, pin_name = ''In'', pin_type = EXECUTION\<rparr>, \<lparr>pin_id = 50029, pin_name = ''Position'', pin_type = VECTOR2\<rparr>]"
    and o9: "out_pins n9 = [\<lparr>pin_id = 50030, pin_name = ''Out'', pin_type = EXECUTION\<rparr>]"
    and s9: "g10 = \<lparr>nodes = [n0, n1, n2, n3, n4, n5, n6, n7, n8, n9], links = [], current_id = 50030\<rparr>"
    using c9 unfolding s8 by (auto simp: create_move_to_def make_node_def create_pin_def get_next_id_def Let_def)
  obtain n10 g11 where c10: "create_push_node ns (x - 3 * H_SPACE, y + DEPTH_SPACE + DEPTH_SPACE) g10 = (n10, g11)"
    by (cases "create_push_node ns (x - 3 * H_SPACE, y + DEPTH_SPACE + DEPTH_SPACE) g10")
  have i10: "in_pins n10 = []"
    and o10: "out_pins n10 = [\<lparr>pin_id = 50031, pin_name = ''Out'', pin_type = EXECUTION\<rparr>]"
    and s10: "g11 = \<lparr>nodes = [n0, n1, n2, n3, n4, n5, n6, n7, n8, n9, n10], links = [], current_id = 50031\<rparr>"
    using c10 unfolding s9 by (auto simp: create_push_node_def make_node_def create_pin_def get_next_id_def Let_def)
  obtain n11 g12 where c11: "create_enemy_list [e] (x - 3 * H_SPACE, y + DEPTH_SPACE / 2) 0 0 False g11 = (n11, g12)"
    by (cases "create_enemy_list [e] (x - 3 * H_SPACE, y + DEPTH_SPACE / 2) 0 0 False g11")
  have i11: "in_pins n11 = []"
    and o11: "out_pins n11 = [\<lparr>pin_id = 50032, pin_name = ''Pos'', pin_type = VECTOR2\<rparr>, \<lparr>pin_id = 50033, pin_name = ''Exists'', pin_type = BOOLEAN\<rparr>, \<lparr>pin_id = 50034, pin_name = ''ID'', pin_type = FLOAT\<rparr>]"
    and s11: "g12 = \<lparr>nodes = [n0, n1, n2, n3, n4, n5, n6, n7, n8, n9, n10, n11], links = [], current_id = 50034\<rparr>"
    using c11 unfolding s10 by (auto simp: create_enemy_list_def make_node_def create_pin_def get_next_id_def Let_def)
  obtain n12 g13 where c12: "create_offset_pos (x - 4 * H_SPACE, y + DEPTH_SPACE / 2 + 50) 2.5 g12 = (n12, g13)"
    by (cases "create_offset_pos (x - 4 * H_SPACE, y + DEPTH_SPACE / 2 + 50) 2.5 g12")
  have i12: "in_pins n12 = [\<lparr>pin_id = 50035, pin_name = ''Pos'', pin_type = VECTOR2\<rparr>]"
    and o12: "out_pins n12 = [\<lparr>pin_id = 50036, pin_name = ''Result'', pin_type = VECTOR2\<rparr>]"
    and s12: "g13 = \<lparr>nodes = [n0, n1, n2, n3, n4, n5, n6, n7, n8, n9, n10, n11, n12], links = [], current_id = 50036\<rparr>"
    using c12 unfolding s11 by (auto simp: create_offset_pos_def make_node_def create_pin_def get_next_id_def Let_def)
  have l0: "link_pins n4 ''Pos'' n6 ''A'' (g13\<lparr>links := []\<rparr>)
               = (Inr (), g13\<lparr>links := [\<lparr>left_pin_id = 50015, right_pin_id = 50017\<rparr>]\<rparr>)"
    by (simp add: link_defs i4 i6 o4 o6 s12)
  have l1: "link_pins n5 ''Pos'' n6 ''B'' (g13\<lparr>links := [\<lparr>left_pin_id = 50015, right_pin_id = 50017\<rparr>]\<rparr>)
               = (Inr (), g13\<lparr>links := [\<lparr>left_pin_id = 50015, right_pin_id = 50017\<rparr>, \<lparr>left_pin_id = 50016, right_pin_id = 50018\<rparr>]\<rparr>)"
    by (simp add: link_defs i5 i6 o5 o6 s12)
  have l2: "link_pins n6 ''Distance'' n7 ''A'' (g13\<lparr>links := [\<lparr>left_pin_id = 50015, right_pin_id = 50017\<rparr>, \<lparr>left_pin_id = 50016, right_pin_id = 50018\<rparr>]\<rparr>)
               = (Inr (), g13\<lparr>links := [\<lparr>left_pin_id = 50015, right_pin_id = 50017\<rparr>, \<lparr>left_pin_id = 50016, right_pin_id = 50018\<rparr>, \<lparr>left_pin_id = 50021, right_pin_id = 50022\<rparr>]\<rparr>)"
    by (simp add: link_defs i6 i7 o6 o7 s12)
  have l3: "link_pins n7 ''Result'' n2 ''Condition'' (g13\<lparr>links := [\<lparr>left_pin_id = 50015, right_pin_id = 50017\<rparr>, \<lparr>left_pin_id = 50016, right_pin_id = 50018\<rparr>, \<lparr>left_pin_id = 50021, right_pin_id = 50022\<rparr>]\<rparr>)
               = (Inr (), g13\<lparr>links := [\<lparr>left_pin_id = 50015, right_pin_id = 50017\<rparr>, \<lparr>left_pin_id = 50016, right_pin_id = 50018\<rparr>, \<lparr>left_pin_id = 50021, right_pin_id = 50022\<rparr>, \<lparr>left_pin_id = 50023, right_pin_id = 50010\<rparr>]\<rparr>)"
    by (simp add: link_defs i2 i7 o2 o7 s12)
  have l4: "link_pins n5 ''Pos'' n3 ''Position'' (g13\<lparr>links := [\<lparr>left_pin_id = 50015, right_pin_id = 50017\<rparr>, \<lparr>left_pin_id = 50016, right_pin_id = 50018\<rparr>, \<lparr>left_pin_id = 50021, right_pin_id = 50022\<rparr>, \<lparr>left_pin_id = 50023, right_pin_id = 50010\<rparr>]\<rparr>)
               = (Inr (), g13\<lparr>links := [\<lparr>left_pin_id = 50015, right_pin_id = 50017\<rparr>, \<lparr>left_pin_id = 50016, right_pin_id = 50018\<rparr>, \<lparr>left_pin_id = 50021, right_pin_id = 50022\<rparr>, \<lparr>left_pin_id = 50023, right_pin_id = 50010\<rparr>, \<lparr>left_pin_id = 50016, right_pin_id = 50013\<rparr>]\<rparr>)"
    by (simp add: link_defs i3 i5 o3 o5 s12)
  have l5: "link_pins n11 ''Exists'' n8 ''Condition'' (g13\<lparr>links := [\<lparr>left_pin_id = 50015, right_pin_id = 50017\<rparr>, \<lparr>left_pin_id = 50016, right_pin_id = 50018\<rparr>, \<lparr>left_pin_id = 50021, right_pin_id = 50022\<rparr>, \<lparr>left_pin_id = 50023, right_pin_id = 50010\<rparr>, \<lparr>left_pin_id = 50016, right_pin_id = 50013\<rparr>]\<rparr>)
               = (Inr (), g13\<lparr>links := [\<lparr>left_pin_id = 50015, right_pin_id = 50017\<rparr>, \<lparr>left_pin_id = 50016, right_pin_id = 50018\<rparr>, \<lparr>left_pin_id = 50021, right_pin_id = 50022\<rparr>, \<lparr>left_pin_id = 50023, right_pin_id = 50010\<rparr>, \<lparr>left_pin_id = 50016, right_pin_id = 50013\<rparr>, \<lparr>left_pin_id = 50033, right_pin_id = 50026\<rparr>]\<rparr>)"
    by (simp add: link_defs i11 i8 o11 o8 s12)
  have l6: "link_pins n11 ''Pos'' n12 ''Pos'' (g13\<lparr>links := [\<lparr>left_pin_id = 50015, right_pin_id = 50017\<rparr>, \<lparr>left_pin_id = 50016, right_pin_id = 50018\<rparr>, \<lparr>left_pin_id = 50021, right_pin_id = 50022\<rparr>, \<lparr>left_pin_id = 50023, right_pin_id = 50010\<rparr>, \<lparr>left_pin_id = 50016, right_pin_id = 50013\<rparr>, \<lparr>left_pin_id = 50033, right_pin_id = 50026\<rparr>]\<rparr>)
               = (Inr (), g13\<lparr>links := [\<lparr>left_pin_id = 50015, right_pin_id = 50017\<rparr>, \<lparr>left_pin_id = 50016, right_pin_id = 50018\<rparr>, \<lparr>left_pin_id = 50021, right_pin_id = 50022\<rparr>, \<lparr>left_pin_id = 50023, right_pin_id = 50010\<rparr>, \<lparr>left_pin_id = 50016, right_pin_id = 50013\<rparr>, \<lparr>left_pin_id = 50033, right_pin_id = 50026\<rparr>, \<lparr>left_pin_id = 50032, right_pin_id = 50035\<rparr>]\<rparr>)"
    by (simp add: link_defs i11 i12 o11 o12 s12)
  have l7: "link_pins n12 ''Result'' n9 ''Position'' (g13\<lparr>links := [\<lparr>left_pin_id = 50015, right_pin_id = 50017\<rparr>, \<lparr>left_pin_id = 50016, right_pin_id = 50018\<rparr>, \<lparr>left_pin_id = 50021, right_pin_id = 50022\<rparr>, \<lparr>left_pin_id = 50023, right_pin_id = 50010\<rparr>, \<lparr>left_pin_id = 50016, right_pin_id = 50013\<rparr>, \<lparr>left_pin_id = 50033, right_pin_id = 50026\<rparr>, \<lparr>left_pin_id = 50032, right_pin_id = 50035\<rparr>]\<rparr>)
               = (Inr (), g13\<lparr>links := [\<lparr>left_pin_id = 50015, right_pin_id = 50017\<rparr>, \<lparr>left_pin_id = 50016, right_pin_id = 50018\<rparr>, \<lparr>left_pin_id = 50021, right_pin_id = 50022\<rparr>, \<lparr>left_pin_id = 50023, right_pin_id = 50010\<rparr>, \<lparr>left_pin_id = 50016, right_pin_id = 50013\<rparr>, \<lparr>left_pin_id = 50033, right_pin_id = 50026\<rparr>, \<lparr>left_pin_id = 50032, right_pin_id = 50035\<rparr>, \<lparr>left_pin_id = 50036, right_pin_id = 50029\<rparr>]\<rparr>)"
    by (simp add: link_defs i12 i9 o12 o9 s12)
  have l8: "link_pins n0 ''In'' n1 ''Out'' (g13\<lparr>links := [\<lparr>left_pin_id = 50015, right_pin_id = 50017\<rparr>, \<lparr>left_pin_id = 50016, right_pin_id = 50018\<rparr>, \<lparr>left_pin_id = 50021, right_pin_id = 50022\<rparr>, \<lparr>left_pin_id = 50023, right_pin_id = 50010\<rparr>, \<lparr>left_pin_id = 50016, right_pin_id = 50013\<rparr>, \<lparr>left_pin_id = 50033, right_pin_id = 50026\<rparr>, \<lparr>left_pin_id = 50032, right_pin_id = 50035\<rparr>, \<lparr>left_pin_id = 50036, right_pin_id = 50029\<rparr>]\<rparr>)
               = (Inr (), g13\<lparr>links := [\<lparr>left_pin_id = 50015, right_pin_id = 50017\<rparr>, \<lparr>left_pin_id = 50016, right_pin_id = 50018\<rparr>, \<lparr>left_pin_id = 50021, right_pin_id = 50022\<rparr>, \<lparr>left_pin_id = 50023, right_pin_id = 50010\<rparr>, \<lparr>left_pin_id = 50016, right_pin_id = 50013\<rparr>, \<lparr>left_pin_id = 50033, right_pin_id = 50026\<rparr>, \<lparr>left_pin_id = 50032, right_pin_id = 50035\<rparr>, \<lparr>left_pin_id = 50036, right_pin_id = 50029\<rparr>, \<lparr>left_pin_id = 50007, right_pin_id = 50001\<rparr>]\<rparr>)"
    by (simp add: link_defs i0 i1 o0 o1 s12)
  have l9: "link_pins n1 ''In'' n2 ''Out'' (g13\<lparr>links := [\<lparr>left_pin_id = 50015, right_pin_id = 50017\<rparr>, \<lparr>left_pin_id = 50016, right_pin_id = 50018\<rparr>, \<lparr>left_pin_id = 50021, right_pin_id = 50022\<rparr>, \<lparr>left_pin_id = 50023, right_pin_id = 50010\<rparr>, \<lparr>left_pin_id = 50016, right_pin_id = 50013\<rparr>, \<lparr>left_pin_id = 50033, right_pin_id = 50026\<rparr>, \<lparr>left_pin_id = 50032, right_pin_id = 50035\<rparr>, \<lparr>left_pin_id = 50036, right_pin_id = 50029\<rparr>, \<lparr>left_pin_id = 50007, right_pin_id = 50001\<rparr>]\<rparr>)
               = (Inr (), g13\<lparr>links := [\<lparr>left_pin_id = 50015, right_pin_id = 50017\<rparr>, \<lparr>left_pin_id = 50016, right_pin_id = 50018\<rparr>, \<lparr>left_pin_id = 50021, right_pin_id = 50022\<rparr>, \<lparr>left_pin_id = 50023, right_pin_id = 50010\<rparr>, \<lparr>left_pin_id = 50016, right_pin_id = 50013\<rparr>, \<lparr>left_pin_id = 50033, right_pin_id = 50026\<rparr>, \<lparr>left_pin_id = 50032, right_pin_id = 50035\<rparr>, \<lparr>left_pin_id = 50036, right_pin_id = 50029\<rparr>, \<lparr>left_pin_id = 50007, right_pin_id = 50001\<rparr>, \<lparr>left_pin_id = 50011, right_pin_id = 50002\<rparr>]\<rparr>)"
    by (simp add: link_defs i1 i2 o1 o2 s12)
  have l10: "link_pins n2 ''False'' n3 ''Out'' (g13\<lparr>links := [\<lparr>left_pin_id = 50015, right_pin_id = 50017\<rparr>, \<lparr>left_pin_id = 50016, right_pin_id = 50018\<rparr>, \<lparr>left_pin_id = 50021, right_pin_id = 50022\<rparr>, \<lparr>left_pin_id = 50023, right_pin_id = 50010\<rparr>, \<lparr>left_pin_id = 50016, right_pin_id = 50013\<rparr>, \<lparr>left_pin_id = 50033, right_pin_id = 50026\<rparr>, \<lparr>left_pin_id = 50032, right_pin_id = 50035\<rparr>, \<lparr>left_pin_id = 50036, right_pin_id = 50029\<rparr>, \<lparr>left_pin_id = 50007, right_pin_id = 50001\<rparr>, \<lparr>left_pin_id = 50011, right_pin_id = 50002\<rparr>]\<rparr>)
               = (Inr (), g13\<lparr>links := [\<lparr>left_pin_id = 50015, right_pin_id = 50017\<rparr>, \<lparr>left_pin_id = 50016, right_pin_id = 50018\<rparr>, \<lparr>left_pin_id = 50021, right_pin_id = 50022\<rparr>, \<lparr>left_pin_id = 50023, right_pin_id = 50010\<rparr>, \<lparr>left_pin_id = 50016, right_pin_id = 50013\<rparr>, \<lparr>left_pin_id = 50033, right_pin_id = 50026\<rparr>, \<lparr>left_pin_id = 50032, right_pin_id = 50035\<rparr>, \<lparr>left_pin_id = 50036, right_pin_id = 50029\<rparr>, \<lparr>left_pin_id = 50007, right_pin_id = 50001\<rparr>, \<lparr>left_pin_id = 50011, right_pin_id = 50002\<rparr>, \<lparr>left_pin_id = 50014, right_pin_id = 50009\<rparr>]\<rparr>)"
    by (simp add: link_defs i2 i3 o2 o3 s12)
  have l11: "link_pins n2 ''True'' n8 ''Out'' (g13\<lparr>links := [\<lparr>left_pin_id = 50015, right_pin_id = 50017\<rparr>, \<lparr>left_pin_id = 50016, right_pin_id = 50018\<rparr>, \<lparr>left_pin_id = 50021, right_pin_id = 50022\<rparr>, \<lparr>left_pin_id = 50023, right_pin_id = 50010\<rparr>, \<lparr>left_pin_id = 50016, right_pin_id = 50013\<rparr>, \<lparr>left_pin_id = 50033, right_pin_id = 50026\<rparr>, \<lparr>left_pin_id = 50032, right_pin_id = 50035\<rparr>, \<lparr>left_pin_id = 50036, right_pin_id = 50029\<rparr>, \<lparr>left_pin_id = 50007, right_pin_id = 50001\<rparr>, \<lparr>left_pin_id = 50011, right_pin_id = 50002\<rparr>, \<lparr>left_pin_id = 50014, right_pin_id = 50009\<rparr>]\<rparr>)
               = (Inr (), g13\<lparr>links := [\<lparr>left_pin_id = 50015, right_pin_id = 50017\<rparr>, \<lparr>left_pin_id = 50016, right_pin_id = 50018\<rparr>, \<lparr>left_pin_id = 50021, right_pin_id = 50022\<rparr>, \<lparr>left_pin_id = 50023, right_pin_id = 50010\<rparr>, \<lparr>left_pin_id = 50016, right_pin_id = 50013\<rparr>, \<lparr>left_pin_id = 50033, right_pin_id = 50026\<rparr>, \<lparr>left_pin_id = 50032, right_pin_id = 50035\<rparr>, \<lparr>left_pin_id = 50036, right_pin_id = 50029\<rparr>, \<lparr>left_pin_id = 50007, right_pin_id = 50001\<rparr>, \<lparr>left_pin_id = 50011, right_pin_id = 50002\<rparr>, \<lparr>left_pin_id = 50014, right_pin_id = 50009\<rparr>, \<lparr>left_pin_id = 50027, right_pin_id = 50008\<rparr>]\<rparr>)"
    by (simp add: link_defs i2 i8 o2 o8 s12)
  have l12: "link_pins n8 ''True'' n9 ''Out'' (g13\<lparr>links := [\<lparr>left_pin_id = 50015, right_pin_id = 50017\<rparr>, \<lparr>left_pin_id = 50016, right_pin_id = 50018\<rparr>, \<lparr>left_pin_id = 50021, right_pin_id = 50022\<rparr>, \<lparr>left_pin_id = 50023, right_pin_id = 50010\<rparr>, \<lparr>left_pin_id = 50016, right_pin_id = 50013\<rparr>, \<lparr>left_pin_id = 50033, right_pin_id = 50026\<rparr>, \<lparr>left_pin_id = 50032, right_pin_id = 50035\<rparr>, \<lparr>left_pin_id = 50036, right_pin_id = 50029\<rparr>, \<lparr>left_pin_id = 50007, right_pin_id = 50001\<rparr>, \<lparr>left_pin_id = 50011, right_pin_id = 50002\<rparr>, \<lparr>left_pin_id = 50014, right_pin_id = 50009\<rparr>, \<lparr>left_pin_id = 50027, right_pin_id = 50008\<rparr>]\<rparr>)
               = (Inr (), g13\<lparr>links := [\<lparr>left_pin_id = 50015, right_pin_id = 50017\<rparr>, \<lparr>left_pin_id = 50016, right_pin_id = 50018\<rparr>, \<lparr>left_pin_id = 50021, right_pin_id = 50022\<rparr>, \<lparr>left_pin_id = 50023, right_pin_id = 50010\<rparr>, \<lparr>left_pin_id = 50016, right_pin_id = 50013\<rparr>, \<lparr>left_pin_id = 50033, right_pin_id = 50026\<rparr>, \<lparr>left_pin_id = 50032, right_pin_id = 50035\<rparr>, \<lparr>left_pin_id = 50036, right_pin_id = 50029\<rparr>, \<lparr>left_pin_id = 50007, right_pin_id = 50001\<rparr>, \<lparr>left_pin_id = 50011, right_pin_id = 50002\<rparr>, \<lparr>left_pin_id = 50014, right_pin_id = 50009\<rparr>, \<lparr>left_pin_id = 50027, right_pin_id = 50008\<rparr>, \<lparr>left_pin_id = 50030, right_pin_id = 50024\<rparr>]\<rparr>)"
    by (simp add: link_defs i8 i9 o8 o9 s12)
  have l13: "link_pins n8 ''False'' n10 ''Out'' (g13\<lparr>links := [\<lparr>left_pin_id = 50015, right_pin_id = 50017\<rparr>, \<lparr>left_pin_id = 50016, right_pin_id = 50018\<rparr>, \<lparr>left_pin_id = 50021, right_pin_id = 50022\<rparr>, \<lparr>left_pin_id = 50023, right_pin_id = 50010\<rparr>, \<lparr>left_pin_id = 50016, right_pin_id = 50013\<rparr>, \<lparr>left_pin_id = 50033, right_pin_id = 50026\<rparr>, \<lparr>left_pin_id = 50032, right_pin_id = 50035\<rparr>, \<lparr>left_pin_id = 50036, right_pin_id = 50029\<rparr>, \<lparr>left_pin_id = 50007, right_pin_id = 50001\<rparr>, \<lparr>left_pin_id = 50011, right_pin_id = 50002\<rparr>, \<lparr>left_pin_id = 50014, right_pin_id = 50009\<rparr>, \<lparr>left_pin_id = 50027, right_pin_id = 50008\<rparr>, \<lparr>left_pin_id = 50030, right_pin_id = 50024\<rparr>]\<rparr>)
               = (Inr (), g13\<lparr>links := [\<lparr>left_pin_id = 50015, right_pin_id = 50017\<rparr>, \<lparr>left_pin_id = 50016, right_pin_id = 50018\<rparr>, \<lparr>left_pin_id = 50021, right_pin_id = 50022\<rparr>, \<lparr>left_pin_id = 50023, right_pin_id = 50010\<rparr>, \<lparr>left_pin_id = 50016, right_pin_id = 50013\<rparr>, \<lparr>left_pin_id = 50033, right_pin_id = 50026\<rparr>, \<lparr>left_pin_id = 50032, right_pin_id = 50035\<rparr>, \<lparr>left_pin_id = 50036, right_pin_id = 50029\<rparr>, \<lparr>left_pin_id = 50007, right_pin_id = 50001\<rparr>, \<lparr>left_pin_id = 50011, right_pin_id = 50002\<rparr>, \<lparr>left_pin_id = 50014, right_pin_id = 50009\<rparr>, \<lparr>left_pin_id = 50027, right_pin_id = 50008\<rparr>, \<lparr>left_pin_id = 50030, right_pin_id = 50024\<rparr>, \<lparr>left_pin_id = 50031, right_pin_id = 50025\<rparr>]\<rparr>)"
    by (simp add: link_defs i10 i8 o10 o8 s12)
  have g13: "g13\<lparr>links := []\<rparr> = g13" by (simp add: s12)
  have lseq0: "link_seq
       [(n4, ''Pos'', n6, ''A''),
        (n5, ''Pos'', n6, ''B''),
        (n6, ''Distance'', n7, ''A''),
        (n7, ''Result'', n2, ''Condition''),
        (n5, ''Pos'', n3, ''Position''),
        (n11, ''Exists'', n8, ''Condition''),
        (n11, ''Pos'', n12, ''Pos''),
        (n12, ''Result'', n9, ''Position''),
        (n0, ''In'', n1, ''Out''),
        (n1, ''In'', n2, ''Out''),
        (n2, ''False'', n3, ''Out''),
        (n2, ''True'', n8, ''Out''),
        (n8, ''True'', n9, ''Out''),
        (n8, ''False'', n10, ''Out'')] (g13\<lparr>links := []\<rparr>)
      = (Inr (), g13\<lparr>links := beacon_links\<rparr>)"
    apply (simp only: link_seq.simps l0 l1 l2 l3 l4 l5 l6 l7 l8 l9 l10 l11 l12 l13 prod.case sum.case)
    apply (simp add: beacon_links_def)
    done
  have lseq: "link_seq
       [(n4, ''Pos'', n6, ''A''),
        (n5, ''Pos'', n6, ''B''),
        (n6, ''Distance'', n7, ''A''),
        (n7, ''Result'', n2, ''Condition''),
        (n5, ''Pos'', n3, ''Position''),
        (n11, ''Exists'', n8, ''Condition''),
        (n11, ''Pos'', n12, ''Pos''),
        (n12, ''Result'', n9, ''Position''),
        (n0, ''In'', n1, ''Out''),
        (n1, ''In'', n2, ''Out''),
        (n2, ''False'', n3, ''Out''),
        (n2, ''True'', n8, ''Out''),
        (n8, ''True'', n9, ''Out''),
        (n8, ''False'', n10, ''Out'')] g13
      = (Inr (), g13\<lparr>links := beacon_links\<rparr>)"
    using lseq0 by (simp only: g13)
  have run: "\<exists>res. create_beacon_search e bp ns (x, y) dt StateGenerator_init
               = (Inr res, g13\<lparr>links := beacon_links\<rparr>)"
    by (simp only: create_beacon_search_def Let_def prod.case c0 c1 c2 c3 c4 c5 c6 c7 c8 c9 c10 c11 c12 lseq sum.case) (rule exI, rule refl)
  have ids: "map node_pin_ids (nodes (g13\<lparr>links := beacon_links\<rparr>)) = beacon_pin_ids"
    by (simp add: s12 node_pin_ids_def beacon_pin_ids_def i0 o0 i1 o1 i2 o2 i3 o3 i4 o4 i5 o5 i6 o6 i7 o7 i8 o8 i9 o9 i10 o10 i11 o11 i12 o12)
  from run ids show ?thesis by auto
qed

lemma node_of_pin_ids:
  "node_of_pin g i =
     List.find (\<lambda>k. i \<in> set (map node_pin_ids (nodes g) ! k))
               [0..<length (map node_pin_ids (nodes g))]"
  unfolding node_of_pin_def by (rule find_cong) auto

lemma beacon_link_edges:
  assumes "links g = beacon_links" and "map node_pin_ids (nodes g) = beacon_pin_ids"
  shows "link_edges g = beacon_edges"
  by (simp add: link_edges_def node_of_pin_ids assms beacon_links_def beacon_pin_ids_def
        beacon_edges_def)

lemma ranked_path:
  assumes "\<forall>(a, b) \<in> E. r a < (r b :: nat)" and "(u, v) \<in> E\<^sup>*"
  shows "r u \<le> r v"
  using assms(2)
proof (induction rule: rtrancl_induct)
  case base
  show ?case by simp
next
  case (step b c)
  from assms(1) step.hyps(2) have "r b < r c" by auto
  with step.IH show ?case by simp
qed

lemma beacon_edges_ranked: "\<forall>(a, b) \<in> set beacon_edges. beacon_rank a < beacon_rank b"
  by (simp add: beacon_edges_def beacon_rank_def)

text \<open>
  C3. For every choice of parameters, \<open>create_beacon_search\<close> on a fresh generator
  succeeds and builds thirteen nodes and fourteen links; every link has an owner node
  for each of its two pins, and the graph has no cycle: for no link can the node that
  owns its right pin reach, along links followed from left pin to right pin, the node
  that owns its left pin.
\<close>

theorem beacon_search_acyclic:
  "\<exists>res g'. create_beacon_search beacon_enemy_id beacon_position next_state pos distance_threshold
               StateGenerator_init = (Inr res, g')
      \<and> length (nodes g') = 13 \<and> length (links g') = 14
      \<and> length (link_edges g') = length (links g')
      \<and> \<not> has_cycle g'"
proof -
  obtain x y where pos: "pos = (x, y)" by (cases pos)
  from beacon_eval[of beacon_enemy_id beacon_position next_state x y distance_threshold]
  obtain res g' where run: "create_beacon_search beacon_enemy_id beacon_position next_state pos
                              distance_threshold StateGenerator_init = (Inr res, g')"
    and l: "links g' = beacon_links" and ids: "map node_pin_ids (nodes g') = beacon_pin_ids"
    unfolding pos by blast
  have e: "link_edges g' = beacon_edges" by (rule beacon_link_edges[OF l ids])
  have "length (map node_pin_ids (nodes g')) = 13" unfolding ids by (simp add: beacon_pin_ids_def)
  then have n: "length (nodes g') = 13" by simp
  have ll: "length (links g') = 14" unfolding l by (simp add: beacon_links_def)
  have le: "length (link_edges g') = 14" unfolding e by (simp add: beacon_edges_def)
  have "\<not> has_cycle g'"
  proof
    assume "has_cycle g'"
    then obtain a b where ab: "(a, b) \<in> set beacon_edges" and bk: "(b, a) \<in> (set beacon_edges)\<^sup>*"
      unfolding has_cycle_def reaches_def e by auto
    from beacon_edges_ranked ab have "beacon_rank a < beacon_rank b" by auto
    moreover from ranked_path[OF beacon_edges_ranked bk] have "beacon_rank b \<le> beacon_rank a" .
    ultimately show False by simp
  qed
  with run n ll le show ?thesis by auto
qed

text \<open>The pattern for one enemy id, one beacon position and the state \<open>boss_clear\<close>.\<close>

theorem beacon_search_acyclic_witness:
  "\<exists>res g'. create_beacon_search 1 (5, 7) ''boss_clear'' (0, 0) 10 StateGenerator_init = (Inr res, g')
      \<and> length (nodes g') = 13 \<and> length (links g') = 14
      \<and> length (link_edges g') = length (links g')
      \<and> \<not> has_cycle g'"
  by (rule beacon_search_acyclic)

end
